theory Spec2Isabelle
  imports Complex_Main
begin

section \<open>The world outside the orchestrator\<close>

text \<open>
  The orchestrator of \<^verbatim>\<open>src/main.py\<close> drives six agents through
  \<^verbatim>\<open>Runner.run\<close>. What an agent answers is not decided by this repository, so an agent
  is modelled by its name and by the outcome of each call made to it. A Python exception is
  a value; \<^verbatim>\<open>asyncio.TimeoutError\<close> is kept apart from every other exception because
  \<^verbatim>\<open>run_with_retry\<close> has one handler for each.
\<close>

datatype exn = TimeoutError | Exception string

text \<open>
  The outcome of one \<^verbatim>\<open>await asyncio.wait_for(Runner.run(agent, input=...), timeout=...)\<close>:
  it raises, or it returns a result. \<open>Returns None\<close> is a result that fails the test
  \<^verbatim>\<open>result and hasattr(result, 'final_output')\<close>; \<open>Returns (Some out)\<close> is a result that
  passes it, with \<open>out\<close> its \<^verbatim>\<open>final_output\<close>.
\<close>

datatype 'a attempt = Raises exn | Returns "'a option"

text \<open>
  \<open>respond a k input timeout\<close> is the outcome of the call to agent \<open>a\<close> when \<open>k\<close> calls of
  \<^verbatim>\<open>Runner.run\<close> have been made before it in the run.
\<close>

record 'a agent =
  name :: string
  respond :: "nat \<Rightarrow> string \<Rightarrow> nat \<Rightarrow> 'a attempt"

text \<open>
  The effects of a run, in order: every call of \<^verbatim>\<open>Runner.run\<close> (agent name, input,
  timeout) and every \<^verbatim>\<open>asyncio.sleep\<close> (its duration).
\<close>

datatype event = Run string string nat | Sleep nat

record world =
  runs :: nat
  events :: "event list"

definition record_run :: "'a agent \<Rightarrow> string \<Rightarrow> nat \<Rightarrow> world \<Rightarrow> world" where
  "record_run a input timeout w =
     w\<lparr>runs := Suc (runs w), events := events w @ [Run (name a) input timeout]\<rparr>"

definition sleep :: "nat \<Rightarrow> world \<Rightarrow> world" where
  "sleep d w = w\<lparr>events := events w @ [Sleep d]\<rparr>"

fun wait_of :: "event \<Rightarrow> nat" where
  "wait_of (Sleep d) = d"
| "wait_of (Run a i t) = 0"

definition total_wait :: "event list \<Rightarrow> nat" where
  "total_wait es = sum_list (map wait_of es)"

fun is_sleep :: "event \<Rightarrow> bool" where
  "is_sleep (Sleep d) = True"
| "is_sleep (Run a i t) = False"

section \<open>The stage invoker: \<^verbatim>\<open>run_with_retry\<close>\<close>

text \<open>
  \<^verbatim>\<open>
  async def run_with_retry(agent, input_text, timeout=180):
      for attempt in range(3):
          try:
              result = await asyncio.wait_for(Runner.run(agent, input=input_text), timeout=timeout)
              if result and hasattr(result, 'final_output'):
                  return result
          except asyncio.TimeoutError:
              if attempt < 2: await asyncio.sleep(2 ** attempt)
              else: raise
          except Exception as e:
              if attempt < 2: await asyncio.sleep(2 ** attempt)
              else: raise
      return None
  \<close>
  The \<^verbatim>\<open>for\<close> loop is a recursion over the attempt numbers still to run. The value is
  \<open>Inl e\<close> for an exception that leaves the function, \<open>Inr None\<close> for \<^verbatim>\<open>return None\<close>
  and \<open>Inr (Some out)\<close> for a returned result whose \<^verbatim>\<open>final_output\<close> is \<open>out\<close>.
\<close>

fun retry_loop ::
  "'a agent \<Rightarrow> string \<Rightarrow> nat \<Rightarrow> nat list \<Rightarrow> world \<Rightarrow> (exn + 'a option) \<times> world" where
  "retry_loop a input timeout [] w = (Inr None, w)"
| "retry_loop a input timeout (attempt # rest) w =
     (let w1 = record_run a input timeout w in
      case respond a (runs w) input timeout of
        Returns (Some out) \<Rightarrow> (Inr (Some out), w1)
      | Returns None \<Rightarrow> retry_loop a input timeout rest w1
      | Raises e \<Rightarrow>
          if attempt < 2 then retry_loop a input timeout rest (sleep (2 ^ attempt) w1)
          else (Inl e, w1))"

definition run_with_retry ::
  "'a agent \<Rightarrow> string \<Rightarrow> nat \<Rightarrow> world \<Rightarrow> (exn + 'a option) \<times> world" where
  "run_with_retry a input timeout w = retry_loop a input timeout [0, 1, 2] w"

section \<open>Data of the pipeline\<close>

text \<open>The dataclass \<^verbatim>\<open>ContentEvaluation\<close> of \<^verbatim>\<open>evaluator_agent.py\<close>. A score is a real
  number: the orchestrator only compares scores, and on the floats that are numbers the
  comparison is the one of the reals.\<close>

record content_evaluation =
  authenticity_score :: real
  quality_score :: real
  completeness_score :: real
  depth_score :: real
  overall_score :: real
  approved :: bool
  needs_rewrite :: bool
  strengths :: "string list"
  weaknesses :: "string list"
  specific_feedback :: string

text \<open>\<^verbatim>\<open>SocialMediaContent\<close> of \<^verbatim>\<open>social_media_agent.py\<close>.\<close>

record social_media_content =
  tiktok_hook :: string
  tiktok_script :: string
  tiktok_cta :: string
  linkedin_hook :: string
  linkedin_body :: string
  linkedin_cta :: string
  linkedin_hashtags :: "string list"
  instagram_hook :: string
  instagram_body :: string
  instagram_cta :: string
  instagram_hashtags :: "string list"

text \<open>\<^verbatim>\<open>StoredPost\<close> and \<^verbatim>\<open>StorageResult\<close> of \<^verbatim>\<open>storage_agent.py\<close>.\<close>

record stored_post =
  platform :: string
  title :: string
  notion_link :: string

record storage_result =
  master_content_link :: string
  stored_posts :: "stored_post list"
  success :: bool
  message :: string

text \<open>\<^verbatim>\<open>ScheduledPost\<close> and \<^verbatim>\<open>SchedulingResult\<close> of \<^verbatim>\<open>scheduler_agent.py\<close>.\<close>

record scheduled_post =
  platform :: string
  title :: string
  scheduled_time :: string
  calendar_link :: string

record scheduling_result =
  scheduled_posts :: "scheduled_post list"
  success :: bool
  message :: string

text \<open>
  What \<^verbatim>\<open>json.loads\<close> returns. An object is the list of its items, keys distinct, read
  with \<open>map_of\<close>. A text is the list of its bytes in UTF-8, so the length of a string
  value and the iteration over it are those of Python on ASCII text.
\<close>

datatype json =
  JNull | JBool bool | JNum real | JStr string | JArr "json list" | JObj "(string \<times> json) list"

text \<open>
  Functions of the Python runtime that the formatters call and that are not reimplemented
  here: \<^verbatim>\<open>json.loads\<close> (\<open>None\<close> when it raises), \<^verbatim>\<open>str.split()\<close>, and the text that an
  f-string gives for a value that is not a string and for a float.
\<close>

record pylib =
  json_loads :: "string \<Rightarrow> json option"
  split :: "string \<Rightarrow> string list"
  str_json :: "json \<Rightarrow> string"
  str_float :: "real \<Rightarrow> string"

definition nl :: string where
  "nl = [CHR 0x0A]"

definition dq :: string where
  "dq = [CHR 0x22]"

text \<open>The UTF-8 bytes of U+2022 (bullet) and of U+2265 (greater-than or equal to).\<close>

definition bullet :: string where
  "bullet = [CHR 0xE2, CHR 0x80, CHR 0xA2]"

definition ge_sign :: string where
  "ge_sign = [CHR 0xE2, CHR 0x89, CHR 0xA5]"

text \<open>The decimal text of a natural number, as an f-string writes an \<^verbatim>\<open>int\<close>.\<close>

function str_nat :: "nat \<Rightarrow> string" where
  "str_nat n =
     (if n < 10 then [char_of (48 + n)]
      else str_nat (n div 10) @ [char_of (48 + n mod 10)])"
  by pat_completeness auto
termination
  by (relation "measure (\<lambda>n. n)") auto

text \<open>\<^verbatim>\<open>sep.join(xs)\<close>.\<close>

fun join :: "string \<Rightarrow> string list \<Rightarrow> string" where
  "join sep [] = []"
| "join sep [x] = x"
| "join sep (x # y # ys) = x @ sep @ join sep (y # ys)"

text \<open>What an f-string writes for a JSON value: a string as it is, anything else through
  \<^verbatim>\<open>str\<close>.\<close>

definition py_str :: "pylib \<Rightarrow> json \<Rightarrow> string" where
  "py_str lib v = (case v of JStr s \<Rightarrow> s | _ \<Rightarrow> str_json lib v)"

text \<open>\<^verbatim>\<open>d.get(key, default)\<close>: only a \<^verbatim>\<open>dict\<close> has the method.\<close>

definition dict_get :: "json \<Rightarrow> string \<Rightarrow> json \<Rightarrow> exn + json" where
  "dict_get d key dflt =
     (case d of
        JObj items \<Rightarrow> Inr (case map_of items key of None \<Rightarrow> dflt | Some v \<Rightarrow> v)
      | _ \<Rightarrow> Inl (Exception ''AttributeError''))"

text \<open>\<^verbatim>\<open>d[key]\<close> with a string key.\<close>

definition getitem :: "json \<Rightarrow> string \<Rightarrow> exn + json" where
  "getitem d key =
     (case d of
        JObj items \<Rightarrow>
          (case map_of items key of None \<Rightarrow> Inl (Exception ''KeyError'') | Some v \<Rightarrow> Inr v)
      | _ \<Rightarrow> Inl (Exception ''TypeError''))"

text \<open>\<^verbatim>\<open>len(v)\<close>.\<close>

definition py_len :: "json \<Rightarrow> exn + nat" where
  "py_len v =
     (case v of
        JStr s \<Rightarrow> Inr (length s)
      | JArr xs \<Rightarrow> Inr (length xs)
      | JObj items \<Rightarrow> Inr (length items)
      | _ \<Rightarrow> Inl (Exception ''TypeError''))"

text \<open>The values that \<^verbatim>\<open>for x in v\<close> runs through.\<close>

definition py_iter :: "json \<Rightarrow> exn + json list" where
  "py_iter v =
     (case v of
        JStr s \<Rightarrow> Inr (map (\<lambda>c. JStr [c]) s)
      | JArr xs \<Rightarrow> Inr xs
      | JObj items \<Rightarrow> Inr (map (\<lambda>(k, x). JStr k) items)
      | _ \<Rightarrow> Inl (Exception ''TypeError''))"

definition getitem_iter :: "json \<Rightarrow> string \<Rightarrow> exn + json list" where
  "getitem_iter d key = (case getitem d key of Inl e \<Rightarrow> Inl e | Inr v \<Rightarrow> py_iter v)"

section \<open>The prompt formatters\<close>

text \<open>\<^verbatim>\<open>format_research_for_master_content\<close> of \<^verbatim>\<open>writer_agent.py\<close>. It subscripts
  \<^verbatim>\<open>research_data\<close>, so a missing key raises.\<close>

definition format_research_for_master_content :: "pylib \<Rightarrow> json \<Rightarrow> exn + string" where
  "format_research_for_master_content lib research_data =
    (case getitem research_data ''topic'' of Inl e \<Rightarrow> Inl e | Inr topic \<Rightarrow>
     case getitem_iter research_data ''facts_and_stats'' of Inl e \<Rightarrow> Inl e | Inr facts_and_stats \<Rightarrow>
     case getitem_iter research_data ''controversies_and_debates'' of Inl e \<Rightarrow> Inl e
     | Inr controversies_and_debates \<Rightarrow>
     case getitem_iter research_data ''trending_angles'' of Inl e \<Rightarrow> Inl e | Inr trending_angles \<Rightarrow>
     case getitem_iter research_data ''content_gaps'' of Inl e \<Rightarrow> Inl e | Inr content_gaps \<Rightarrow>
     case getitem_iter research_data ''expert_quotes'' of Inl e \<Rightarrow> Inl e | Inr expert_quotes \<Rightarrow>
     case getitem research_data ''research_summary'' of Inl e \<Rightarrow> Inl e | Inr research_summary \<Rightarrow>
     Inr (concat [
      nl,
      ''        Create engaging content about: '', py_str lib topic, nl,
      nl,
      ''        Here's your research to work with:'', nl,
      nl,
      ''        FACTS & DATA:'', nl,
      ''        '', join nl (map (\<lambda>fact. bullet @ '' '' @ py_str lib fact) facts_and_stats), nl,
      nl,
      ''        DEBATES & TENSIONS:'', nl,
      ''        '', join nl (map (\<lambda>controversy. bullet @ '' '' @ py_str lib controversy) controversies_and_debates), nl,
      nl,
      ''        WHAT'S TRENDING:'', nl,
      ''        '', join nl (map (\<lambda>trend. bullet @ '' '' @ py_str lib trend) trending_angles), nl,
      nl,
      ''        UNIQUE ANGLES (What others aren't saying):'', nl,
      ''        '', join nl (map (\<lambda>gap. bullet @ '' '' @ py_str lib gap) content_gaps), nl,
      nl,
      ''        EXPERT VOICES:'', nl,
      ''        '', join nl (map (\<lambda>quote. bullet @ '' '' @ py_str lib quote) expert_quotes), nl,
      nl,
      ''        Context: '', py_str lib research_summary, nl,
      nl,
      ''        Remember: '', nl,
      ''        - Write 1500-2000 words'', nl,
      ''        - Sound exactly like the creator'', nl,
      ''        - Make it engaging, not mechanical'', nl,
      ''        - Weave research naturally into stories'', nl,
      ''        - Explore those unique angles!'', nl,
      nl,
      ''        Write the content.'', nl,
      ''    '']))"

text \<open>\<^verbatim>\<open>format_content_for_evaluation\<close> of \<^verbatim>\<open>evaluator_agent.py\<close>, in the three pieces it
  concatenates: the text up to the context, the section on the previous attempt, which is
  added only \<^verbatim>\<open>if previous_score > 0\<close>, and the task.\<close>

definition evaluation_head :: "pylib \<Rightarrow> string \<Rightarrow> json \<Rightarrow> nat \<Rightarrow> string" where
  "evaluation_head lib content topic n_sources =
    (let word_count = length (split lib content) in
     concat [
      ''Evaluate this blog content and decide if it's good enough to publish.'', nl,
      nl,
      ''=== CONTENT TO EVALUATE ==='', nl,
      nl,
      ''Word Count: '', str_nat word_count, nl,
      nl,
      ''Content:'', nl,
      content, nl,
      nl,
      ''=== CONTEXT ==='', nl,
      nl,
      ''Topic: '', py_str lib topic, nl,
      ''Research Sources Used: '', str_nat n_sources, nl])"

definition previous_attempt_section :: "pylib \<Rightarrow> real \<Rightarrow> string" where
  "previous_attempt_section lib previous_score =
    (if previous_score > 0 then
     concat [
      nl,
      ''=== PREVIOUS ATTEMPT ==='', nl,
      nl,
      ''Previous Score: '', str_float lib previous_score, ''/10'', nl,
      nl,
      ''**CRITICAL: This rewrite MUST score HIGHER than '', str_float lib previous_score, ''**'', nl,
      ''If it doesn't improve, you're failing your job as an evaluator.'', nl]
     else [])"

definition evaluation_task :: string where
  "evaluation_task =
     concat [
      nl,
      ''=== YOUR TASK ==='', nl,
      nl,
      ''1. Score on 4 dimensions (0-10):'', nl,
      ''   '', bullet, '' Authenticity (40%): Does it sound human?'', nl,
      ''   '', bullet, '' Quality (30%): Is the writing good?'', nl,
      ''   '', bullet, '' Completeness (20%): Does it meet requirements?'', nl,
      ''   '', bullet, '' Depth (10%): Does it provide real value?'', nl,
      nl,
      ''2. Calculate overall score using the weights above'', nl,
      nl,
      ''3. Approve if Overall Score '', ge_sign, '' 7.0'', nl,
      nl,
      ''4. List:'', nl,
      ''   '', bullet, '' 3-5 specific STRENGTHS'', nl,
      ''   '', bullet, '' 2-3 specific WEAKNESSES'', nl,
      ''   '', bullet, '' ACTIONABLE feedback (be specific, not vague!)'', nl,
      nl,
      ''5. Return ContentEvaluation with all details'', nl,
      nl,
      ''Remember: Be critical but fair. Give scores that reflect real quality.'', nl]"

definition format_content_for_evaluation ::
  "pylib \<Rightarrow> string \<Rightarrow> json \<Rightarrow> real \<Rightarrow> exn + string" where
  "format_content_for_evaluation lib content research_data previous_score =
    (case dict_get research_data ''topic'' (JStr ''Unknown'') of Inl e \<Rightarrow> Inl e | Inr topic \<Rightarrow>
     case dict_get research_data ''sources'' (JArr []) of Inl e \<Rightarrow> Inl e | Inr sources \<Rightarrow>
     case py_len sources of Inl e \<Rightarrow> Inl e | Inr n_sources \<Rightarrow>
     Inr (evaluation_head lib content topic n_sources
          @ previous_attempt_section lib previous_score
          @ evaluation_task))"

text \<open>\<^verbatim>\<open>format_master_content_for_social\<close> of \<^verbatim>\<open>social_media_agent.py\<close>.\<close>

definition format_master_content_for_social :: "pylib \<Rightarrow> string \<Rightarrow> string \<Rightarrow> string" where
  "format_master_content_for_social lib master_content topic =
    (let word_count = length (split lib master_content) in
     concat [
      ''Repurpose this master content into social media posts.'', nl,
      nl,
      ''=== TOPIC ==='', nl,
      topic, nl,
      nl,
      ''=== MASTER CONTENT ('', str_nat word_count, '' words) ==='', nl,
      nl,
      master_content, nl,
      nl,
      ''=== YOUR TASK ==='', nl,
      nl,
      ''Extract the best insights, angles, and moments from this content and create:'', nl,
      nl,
      ''1. TikTok/Reels Scripts (3-5): 30-60 second videos'', nl,
      ''   '', bullet, '' Focus on quick, engaging, actionable content'', nl,
      ''   '', bullet, '' Each script explores a different angle'', nl,
      ''   '', bullet, '' Make them scroll-stopping!'', nl,
      nl,
      ''2. LinkedIn Posts (2-3): Professional 200-300 word posts'', nl,
      ''   '', bullet, '' Thought leadership and insights'', nl,
      ''   '', bullet, '' Data-driven and credible'', nl,
      ''   '', bullet, '' Spark discussion'', nl,
      nl,
      ''3. Instagram Captions (3-5): Short 80-150 word captions'', nl,
      ''   '', bullet, '' Casual and relatable'', nl,
      ''   '', bullet, '' Easy to read on mobile'', nl,
      ''   '', bullet, '' Encourage engagement'', nl,
      nl,
      ''Remember:'', nl,
      ''   '', bullet, '' Each piece should stand alone (don't require reading the master content)'', nl,
      ''   '', bullet, '' Extract DIFFERENT angles for variety'', nl,
      ''   '', bullet, '' Match the creator's authentic voice'', nl,
      ''   '', bullet, '' Optimize for each platform's unique style'', nl,
      ''   '', bullet, '' Make them engaging and actionable'', nl,
      nl,
      ''Create compelling social media content!'', nl])"

text \<open>\<^verbatim>\<open>format_content_for_storage\<close> of \<^verbatim>\<open>storage_agent.py\<close>.\<close>

definition format_content_for_storage ::
  "string \<Rightarrow> string \<Rightarrow> social_media_content \<Rightarrow> string" where
  "format_content_for_storage topic master_content social_media =
     concat [
      ''Save all content to Notion for topic: '', dq, topic, dq, nl,
      nl,
      ''=== CONTENT TO SAVE ==='', nl,
      nl,
      ''1. MASTER CONTENT (Blog Post)'', nl,
      ''Platform: Blog'', nl,
      ''Title: '', dq, topic, '' - Master Content'', dq, nl,
      ''Content:'', nl,
      master_content, nl,
      nl,
      ''---'', nl,
      nl,
      ''2. TIKTOK SCRIPT'', nl,
      ''Platform: TikTok'', nl,
      ''Title: '', dq, topic, '' - TikTok Script'', dq, nl,
      ''Content:'', nl,
      ''Hook: '', tiktok_hook social_media, nl,
      nl,
      tiktok_script social_media, nl,
      nl,
      ''CTA: '', tiktok_cta social_media, nl,
      nl,
      ''---'', nl,
      nl,
      ''3. LINKEDIN POST'', nl,
      ''Platform: LinkedIn'', nl,
      ''Title: '', dq, topic, '' - LinkedIn Post'', dq, nl,
      ''Content:'', nl,
      linkedin_hook social_media, nl,
      nl,
      linkedin_body social_media, nl,
      nl,
      linkedin_cta social_media, nl,
      nl,
      ''Hashtags: '', join '' '' (linkedin_hashtags social_media), nl,
      nl,
      ''---'', nl,
      nl,
      ''4. INSTAGRAM CAPTION'', nl,
      ''Platform: Instagram'', nl,
      ''Title: '', dq, topic, '' - Instagram Caption'', dq, nl,
      ''Content:'', nl,
      instagram_hook social_media, nl,
      nl,
      instagram_body social_media, nl,
      nl,
      instagram_cta social_media, nl,
      nl,
      ''Hashtags: '', join '' '' (instagram_hashtags social_media), nl,
      nl,
      ''=== YOUR TASK ==='', nl,
      nl,
      ''Use save_to_notion to save each piece:'', nl,
      ''1. Save master content with platform='', dq, ''Blog'', dq, nl,
      ''2. Save TikTok with platform='', dq, ''TikTok'', dq, nl,
      ''3. Save LinkedIn with platform='', dq, ''LinkedIn'', dq, nl,
      ''4. Save Instagram with platform='', dq, ''Instagram'', dq, nl,
      nl,
      ''Return the StorageResult with all links.'', nl]"

text \<open>\<^verbatim>\<open>format_content_for_scheduling\<close> of \<^verbatim>\<open>scheduler_agent.py\<close>.\<close>

definition format_content_for_scheduling :: "string \<Rightarrow> social_media_content \<Rightarrow> string" where
  "format_content_for_scheduling topic social_media =
     concat [
      ''Schedule these social media posts at optimal times: '', dq, topic, dq, nl,
      nl,
      ''=== POSTS TO SCHEDULE ==='', nl,
      nl,
      ''1. TIKTOK POST'', nl,
      ''Platform: TikTok'', nl,
      ''Title: '', dq, ''TikTok - '', topic, dq, nl,
      ''Content:'', nl,
      ''Hook: '', tiktok_hook social_media, nl,
      nl,
      tiktok_script social_media, nl,
      nl,
      ''CTA: '', tiktok_cta social_media, nl,
      nl,
      ''---'', nl,
      nl,
      ''2. LINKEDIN POST'', nl,
      ''Platform: LinkedIn'', nl,
      ''Title: '', dq, ''LinkedIn - '', topic, dq, nl,
      ''Content:'', nl,
      linkedin_hook social_media, nl,
      nl,
      linkedin_body social_media, nl,
      nl,
      linkedin_cta social_media, nl,
      nl,
      ''Hashtags: '', join '' '' (linkedin_hashtags social_media), nl,
      nl,
      ''---'', nl,
      nl,
      ''3. INSTAGRAM POST'', nl,
      ''Platform: Instagram'', nl,
      ''Title: '', dq, ''Instagram - '', topic, dq, nl,
      ''Content:'', nl,
      instagram_hook social_media, nl,
      nl,
      instagram_body social_media, nl,
      nl,
      instagram_cta social_media, nl,
      nl,
      ''Hashtags: '', join '' '' (instagram_hashtags social_media), nl,
      nl,
      ''=== YOUR TASK ==='', nl,
      nl,
      ''1. Get current Lagos time'', nl,
      ''2. Calculate next optimal posting time for each platform'', nl,
      ''3. Schedule each post to Google Calendar'', nl,
      ''4. Return SchedulingResult with all calendar links'', nl,
      nl,
      ''Space out the posts appropriately - don't schedule all at once!'', nl]"

section \<open>The orchestrator: \<^verbatim>\<open>run_workflow\<close>\<close>

text \<open>The six agents that \<^verbatim>\<open>main.py\<close> imports, and the runtime functions. The agents with
  an \<^verbatim>\<open>output_type\<close> answer a value of that dataclass; the research agent and the writer
  answer text.\<close>

record env =
  research_agent :: "string agent"
  master_content_agent :: "string agent"
  evaluator_agent :: "content_evaluation agent"
  social_media_agent :: "social_media_content agent"
  storage_agent :: "storage_result agent"
  scheduler_agent :: "scheduling_result agent"
  lib :: pylib

text \<open>The values of the dictionary that \<^verbatim>\<open>run_workflow\<close> returns; the dictionary is a map
  from its keys.\<close>

datatype rvalue =
  PyNone
| PyStr string
| Evaluation content_evaluation
| Social social_media_content
| Storage storage_result
| Scheduling scheduling_result

type_synonym run_record = "string \<Rightarrow> rvalue option"

definition or_none :: "('a \<Rightarrow> rvalue) \<Rightarrow> 'a option \<Rightarrow> rvalue" where
  "or_none f x = (case x of None \<Rightarrow> PyNone | Some v \<Rightarrow> f v)"

text \<open>
  Step 1 (lines 53 to 61). Everything is inside one \<^verbatim>\<open>try\<close> whose handler returns
  \<^verbatim>\<open>None\<close>: the call, \<^verbatim>\<open>json.loads\<close>, and the \<^verbatim>\<open>len(research_data.get('sources', []))\<close>
  of the progress message. \<open>None\<close> here is \<^verbatim>\<open>return None\<close>.
\<close>

definition research :: "env \<Rightarrow> string \<Rightarrow> world \<Rightarrow> json option \<times> world" where
  "research env topic w =
     (case run_with_retry (research_agent env)
             (''Research this topic comprehensively: '' @ topic) 180 w of
        (Inl e, w1) \<Rightarrow> (None, w1)
      | (Inr None, w1) \<Rightarrow> (None, w1)
      | (Inr (Some final_output), w1) \<Rightarrow>
          (case json_loads (lib env) final_output of
             None \<Rightarrow> (None, w1)
           | Some research_data \<Rightarrow>
               (case dict_get research_data ''sources'' (JArr []) of
                  Inl e \<Rightarrow> (None, w1)
                | Inr sources \<Rightarrow>
                    (case py_len sources of
                       Inl e \<Rightarrow> (None, w1)
                     | Inr n \<Rightarrow> (Some research_data, w1)))))"

text \<open>The variables that the write and evaluate loop updates (lines 65 to 68).\<close>

record loop_state =
  best_content :: "string option"
  best_evaluation :: "content_evaluation option"
  best_score :: real
  prompt :: string

text \<open>
  Lines 72 to 81 of a round: the writer is run on the prompt, the evaluator on the
  formatted draft. \<^verbatim>\<open>format_content_for_evaluation\<close> is called with two arguments, so its
  \<^verbatim>\<open>previous_score\<close> is the default \<^verbatim>\<open>0\<close>. \<open>None\<close> is a round that ends in \<^verbatim>\<open>continue\<close>
  before an evaluation exists: a stage returned \<^verbatim>\<open>None\<close>, or raised into the handler of
  line 94.
\<close>

definition produce_attempt ::
  "env \<Rightarrow> json \<Rightarrow> string \<Rightarrow> world \<Rightarrow> (string \<times> content_evaluation) option \<times> world" where
  "produce_attempt env research_data p w =
     (case run_with_retry (master_content_agent env) p 150 w of
        (Inl e, w1) \<Rightarrow> (None, w1)
      | (Inr None, w1) \<Rightarrow> (None, w1)
      | (Inr (Some master_content), w1) \<Rightarrow>
          (case format_content_for_evaluation (lib env) master_content research_data 0 of
             Inl e \<Rightarrow> (None, w1)
           | Inr eval_prompt \<Rightarrow>
               (case run_with_retry (evaluator_agent env) eval_prompt 120 w1 of
                  (Inl e, w2) \<Rightarrow> (None, w2)
                | (Inr None, w2) \<Rightarrow> (None, w2)
                | (Inr (Some evaluation), w2) \<Rightarrow> (Some (master_content, evaluation), w2))))"

datatype flow = Break | Continue

text \<open>
  Lines 83 to 93 of a round:
  \<^verbatim>\<open>
  if evaluation.overall_score > best_score:
      best_score = evaluation.overall_score
      best_content = master_content
      best_evaluation = evaluation
  if evaluation.approved:
      break
  else:
      prompt = f"{prompt}\n\nPREVIOUS FEEDBACK:\n{evaluation.specific_feedback}\n\nRewrite addressing all issues."
  \<close>
\<close>

definition judge :: "loop_state \<Rightarrow> string \<Rightarrow> content_evaluation \<Rightarrow> flow \<times> loop_state" where
  "judge s master_content evaluation =
     (let s1 = (if overall_score evaluation > best_score s
                then s\<lparr>best_content := Some master_content,
                       best_evaluation := Some evaluation,
                       best_score := overall_score evaluation\<rparr>
                else s)
      in if approved evaluation then (Break, s1)
         else (Continue,
               s1\<lparr>prompt := concat [prompt s1, nl, nl, ''PREVIOUS FEEDBACK:'', nl,
                                      specific_feedback evaluation, nl, nl,
                                      ''Rewrite addressing all issues.'']\<rparr>))"

definition draft_round ::
  "env \<Rightarrow> json \<Rightarrow> loop_state \<Rightarrow> world \<Rightarrow> (flow \<times> loop_state) \<times> world" where
  "draft_round env research_data s w =
     (case produce_attempt env research_data (prompt s) w of
        (None, w') \<Rightarrow> ((Continue, s), w')
      | (Some (master_content, evaluation), w') \<Rightarrow> (judge s master_content evaluation, w'))"

text \<open>\<^verbatim>\<open>for attempt in range(1, 4)\<close>: a recursion over the rounds still to run.\<close>

fun draft_evaluate_loop ::
  "env \<Rightarrow> json \<Rightarrow> nat list \<Rightarrow> loop_state \<Rightarrow> world \<Rightarrow> loop_state \<times> world" where
  "draft_evaluate_loop env research_data [] s w = (s, w)"
| "draft_evaluate_loop env research_data (attempt # rest) s w =
     (case draft_round env research_data s w of
        ((Break, s'), w') \<Rightarrow> (s', w')
      | ((Continue, s'), w') \<Rightarrow> draft_evaluate_loop env research_data rest s' w')"

text \<open>
  Lines 98 to 102: what the loop hands on. \<^verbatim>\<open>if not best_content: return None\<close> takes the
  empty text as it takes \<^verbatim>\<open>None\<close>; line 102 then reads \<^verbatim>\<open>best_evaluation.overall_score\<close>.
\<close>

definition loop_result :: "loop_state \<Rightarrow> exn + (string \<times> content_evaluation) option" where
  "loop_result s =
     (case best_content s of
        None \<Rightarrow> Inr None
      | Some content \<Rightarrow>
          if content = [] then Inr None
          else (case best_evaluation s of
                  None \<Rightarrow> Inl (Exception ''AttributeError'')
                | Some evaluation \<Rightarrow> Inr (Some (content, evaluation))))"

text \<open>Steps 1 to 3 (lines 51 to 102): the research, the prompt of the first round, which
  is formatted outside every \<^verbatim>\<open>try\<close>, the loop, and the test of its result.\<close>

definition best_draft ::
  "env \<Rightarrow> string \<Rightarrow> world \<Rightarrow> (exn + (string \<times> content_evaluation) option) \<times> world" where
  "best_draft env topic w =
     (case research env topic w of
        (None, w1) \<Rightarrow> (Inr None, w1)
      | (Some research_data, w1) \<Rightarrow>
          (case format_research_for_master_content (lib env) research_data of
             Inl e \<Rightarrow> (Inl e, w1)
           | Inr p \<Rightarrow>
               (case draft_evaluate_loop env research_data [1, 2, 3]
                       \<lparr>best_content = None, best_evaluation = None, best_score = 0, prompt = p\<rparr>
                       w1 of
                  (s, w2) \<Rightarrow> (loop_result s, w2))))"

text \<open>Step 4 (lines 106 to 117). \<open>None\<close> is either of the two \<^verbatim>\<open>return\<close>s of the partial
  dictionary.\<close>

definition social_media ::
  "env \<Rightarrow> string \<Rightarrow> string \<Rightarrow> world \<Rightarrow> social_media_content option \<times> world" where
  "social_media env topic content w =
     (case run_with_retry (social_media_agent env)
             (format_master_content_for_social (lib env) content topic) 120 w of
        (Inl e, w') \<Rightarrow> (None, w')
      | (Inr None, w') \<Rightarrow> (None, w')
      | (Inr (Some social_content), w') \<Rightarrow> (Some social_content, w'))"

text \<open>Step 5 (lines 121 to 132): \<^verbatim>\<open>storage_data\<close> at the end of the step.\<close>

definition storage ::
  "env \<Rightarrow> string \<Rightarrow> string \<Rightarrow> social_media_content \<Rightarrow> world \<Rightarrow> storage_result option \<times> world" where
  "storage env topic content social_content w =
     (case run_with_retry (storage_agent env)
             (format_content_for_storage topic content social_content) 120 w of
        (Inl e, w') \<Rightarrow> (None, w')
      | (Inr None, w') \<Rightarrow> (None, w')
      | (Inr (Some storage_data), w') \<Rightarrow>
          (if storage_result.success storage_data then Some storage_data else None, w'))"

text \<open>Step 6 (lines 136 to 147): \<^verbatim>\<open>schedule_data\<close> at the end of the step.\<close>

definition scheduling ::
  "env \<Rightarrow> string \<Rightarrow> social_media_content \<Rightarrow> world \<Rightarrow> scheduling_result option \<times> world" where
  "scheduling env topic social_content w =
     (case run_with_retry (scheduler_agent env)
             (format_content_for_scheduling topic social_content) 120 w of
        (Inl e, w') \<Rightarrow> (None, w')
      | (Inr None, w') \<Rightarrow> (None, w')
      | (Inr (Some schedule_data), w') \<Rightarrow>
          (if scheduling_result.success schedule_data then Some schedule_data else None, w'))"

text \<open>\<^verbatim>\<open>run_workflow\<close>: \<open>Inl e\<close> is an exception that leaves it, \<open>Inr None\<close> is
  \<^verbatim>\<open>return None\<close>, \<open>Inr (Some r)\<close> a returned dictionary. The \<^verbatim>\<open>print\<close> calls are left out.\<close>

definition run_workflow :: "env \<Rightarrow> string \<Rightarrow> world \<Rightarrow> (exn + run_record option) \<times> world" where
  "run_workflow env topic w =
     (case best_draft env topic w of
        (Inl e, w2) \<Rightarrow> (Inl e, w2)
      | (Inr None, w2) \<Rightarrow> (Inr None, w2)
      | (Inr (Some (content, evaluation)), w2) \<Rightarrow>
          (case social_media env topic content w2 of
             (None, w3) \<Rightarrow>
               (Inr (Some [''topic'' \<mapsto> PyStr topic,
                           ''master_content'' \<mapsto> PyStr content,
                           ''evaluation'' \<mapsto> Evaluation evaluation,
                           ''social_media'' \<mapsto> PyNone]), w3)
           | (Some social_content, w3) \<Rightarrow>
               (case storage env topic content social_content w3 of
                  (storage_data, w4) \<Rightarrow>
                    (case scheduling env topic social_content w4 of
                       (schedule_data, w5) \<Rightarrow>
                         (Inr (Some [''topic'' \<mapsto> PyStr topic,
                                     ''master_content'' \<mapsto> PyStr content,
                                     ''evaluation'' \<mapsto> Evaluation evaluation,
                                     ''social_media'' \<mapsto> Social social_content,
                                     ''storage'' \<mapsto> or_none Storage storage_data,
                                     ''schedule'' \<mapsto> or_none Scheduling schedule_data]),
                          w5)))))"

section \<open>Observations and examples for the properties\<close>

text \<open>
  The evaluated drafts of the rounds that \<open>draft_evaluate_loop\<close> runs, in order: one entry
  for each round in which both the writer and the evaluator gave a result. It follows the
  recursion of the loop and stops where the loop breaks.
\<close>

fun evaluated_attempts ::
  "env \<Rightarrow> json \<Rightarrow> nat list \<Rightarrow> loop_state \<Rightarrow> world \<Rightarrow> (string \<times> content_evaluation) list" where
  "evaluated_attempts env research_data [] s w = []"
| "evaluated_attempts env research_data (attempt # rest) s w =
     (case produce_attempt env research_data (prompt s) w of
        (None, w') \<Rightarrow> evaluated_attempts env research_data rest s w'
      | (Some (master_content, evaluation), w') \<Rightarrow>
          (master_content, evaluation) #
          (case judge s master_content evaluation of
             (Break, s') \<Rightarrow> []
           | (Continue, s') \<Rightarrow> evaluated_attempts env research_data rest s' w'))"

text \<open>
  The invariant that the specification states for an evaluation: the overall score is the
  weighted sum of the four sub-scores, within 0.05. No function of the repository computes
  it; the weights are those of the instructions given to the evaluator agent.
\<close>

definition weighted_overall :: "content_evaluation \<Rightarrow> real" where
  "weighted_overall e =
     0.4 * authenticity_score e + 0.3 * quality_score e
     + 0.2 * completeness_score e + 0.1 * depth_score e"

definition within_tolerance :: "content_evaluation \<Rightarrow> bool" where
  "within_tolerance e \<longleftrightarrow> \<bar>overall_score e - weighted_overall e\<bar> \<le> 0.05"

text \<open>An agent whose answer depends only on the number of calls made before.\<close>

definition scripted :: "string \<Rightarrow> (nat \<Rightarrow> 'a attempt) \<Rightarrow> 'a agent" where
  "scripted nm script = \<lparr>name = nm, respond = (\<lambda>k input timeout. script k)\<rparr>"

text \<open>A research answer with every key that the writer's prompt reads, and the dictionary
  that \<^verbatim>\<open>json.loads\<close> makes of it.\<close>

definition research_json :: string where
  "research_json = concat [
     ''{'', dq, ''topic'', dq, '': '', dq, ''AI tools'', dq, '', '',
     dq, ''facts_and_stats'', dq, '': [], '',
     dq, ''controversies_and_debates'', dq, '': [], '',
     dq, ''trending_angles'', dq, '': [], '',
     dq, ''content_gaps'', dq, '': [], '',
     dq, ''expert_quotes'', dq, '': [], '',
     dq, ''research_summary'', dq, '': '', dq, ''none'', dq, '', '',
     dq, ''sources'', dq, '': []}'']"

definition research_dict :: json where
  "research_dict = JObj [
     (''topic'', JStr ''AI tools''),
     (''facts_and_stats'', JArr []),
     (''controversies_and_debates'', JArr []),
     (''trending_angles'', JArr []),
     (''content_gaps'', JArr []),
     (''expert_quotes'', JArr []),
     (''research_summary'', JStr ''none''),
     (''sources'', JArr [])]"

text \<open>The runtime functions on the texts of the examples: \<^verbatim>\<open>json.loads\<close> knows the one
  research answer, \<^verbatim>\<open>split\<close> is right on a text without white space, and the two
  conversions are never called, since every formatted value is a string and the previous
  score is \<^verbatim>\<open>0\<close>.\<close>

definition example_lib :: pylib where
  "example_lib =
     \<lparr>json_loads = (\<lambda>s. if s = research_json then Some research_dict else None),
      split = (\<lambda>s. if s = [] then [] else [s]),
      str_json = (\<lambda>v. []),
      str_float = (\<lambda>x. [])\<rparr>"

text \<open>An evaluation whose four sub-scores and overall score are all \<open>x\<close>.\<close>

definition scored :: "real \<Rightarrow> bool \<Rightarrow> content_evaluation" where
  "scored x ok =
     \<lparr>authenticity_score = x, quality_score = x, completeness_score = x, depth_score = x,
      overall_score = x, approved = ok, needs_rewrite = (\<not> ok),
      strengths = [], weaknesses = [], specific_feedback = ''Add examples.''\<rparr>"

definition some_posts :: social_media_content where
  "some_posts =
     \<lparr>tiktok_hook = ''h1'', tiktok_script = ''s1'', tiktok_cta = ''c1'',
      linkedin_hook = ''h2'', linkedin_body = ''b2'', linkedin_cta = ''c2'',
      linkedin_hashtags = [''#ai''],
      instagram_hook = ''h3'', instagram_body = ''b3'', instagram_cta = ''c3'',
      instagram_hashtags = [''#ai'', ''#tools'']\<rparr>"

definition stored :: storage_result where
  "stored =
     \<lparr>master_content_link = ''https://notion.so/m'', stored_posts = [],
      success = True, message = ''ok''\<rparr>"

definition scheduled :: scheduling_result where
  "scheduled = \<lparr>scheduled_posts = [], success = True, message = ''ok''\<rparr>"

text \<open>The six agents of the repository by name, the research agent answering
  \<open>research_json\<close>, the others following the given scripts.\<close>

definition example_env ::
  "(nat \<Rightarrow> string attempt) \<Rightarrow> (nat \<Rightarrow> content_evaluation attempt) \<Rightarrow>
   (nat \<Rightarrow> social_media_content attempt) \<Rightarrow> (nat \<Rightarrow> storage_result attempt) \<Rightarrow>
   (nat \<Rightarrow> scheduling_result attempt) \<Rightarrow> env" where
  "example_env writer evaluator repurposer store scheduler =
     \<lparr>research_agent = scripted ''Deep Research Agent'' (\<lambda>k. Returns (Some research_json)),
      master_content_agent = scripted ''Master Content Writer'' writer,
      evaluator_agent = scripted ''Content Quality Evaluator'' evaluator,
      social_media_agent = scripted ''Social Media Agent'' repurposer,
      storage_agent = scripted ''Content Storage Agent'' store,
      scheduler_agent = scripted ''Content Scheduling Agent'' scheduler,
      lib = example_lib\<rparr>"

definition world0 :: world where
  "world0 = \<lparr>runs = 0, events = []\<rparr>"

text \<open>An agent that times out on the first \<open>n\<close> calls of the run and answers afterwards, and
  an agent whose results never carry a \<^verbatim>\<open>final_output\<close>.\<close>

definition flaky :: "nat \<Rightarrow> string agent" where
  "flaky n =
     scripted ''Deep Research Agent''
       (\<lambda>k. if k < n then Raises TimeoutError else Returns (Some ''ok''))"

definition silent :: "string agent" where
  "silent = scripted ''Deep Research Agent'' (\<lambda>k. Returns None)"

text \<open>The writer's first prompt for \<open>research_dict\<close>, and the world after the research
  call of a run on the topic \<^verbatim>\<open>AI tools\<close>.\<close>

definition example_prompt :: string where
  "example_prompt = projr (format_research_for_master_content example_lib research_dict)"

definition world1 :: world where
  "world1 =
     \<lparr>runs = 1,
      events = [Run ''Deep Research Agent'' ''Research this topic comprehensively: AI tools'' 180]\<rparr>"

text \<open>Scripts for the writer and for the evaluator, by the number of the call in the run:
  call 0 is the research, calls 1, 3, 5 the writer and calls 2, 4, 6 the evaluator of the
  rounds 1, 2, 3.\<close>

definition failing :: "nat \<Rightarrow> 'a attempt" where
  "failing k = Raises TimeoutError"

definition writer_two :: "nat \<Rightarrow> string attempt" where
  "writer_two = failing(1 := Returns (Some ''first-draft''), 3 := Returns (Some ''second-draft''))"

definition writer_one :: "nat \<Rightarrow> string attempt" where
  "writer_one = failing(1 := Returns (Some ''first-draft''))"

definition writer_three :: "nat \<Rightarrow> string attempt" where
  "writer_three =
     failing(1 := Returns (Some ''first-draft''), 3 := Returns (Some ''second-draft''),
             5 := Returns (Some ''third-draft''))"

definition evaluator_approving :: "nat \<Rightarrow> content_evaluation attempt" where
  "evaluator_approving = failing(2 := Returns (Some (scored 8.5 True)))"

definition evaluator_zero :: "nat \<Rightarrow> content_evaluation attempt" where
  "evaluator_zero =
     failing(2 := Returns (Some (scored 0 False)), 4 := Returns (Some (scored 0 False)),
             6 := Returns (Some (scored 0 False)))"

definition inflated :: content_evaluation where
  "inflated = (scored 5 True)\<lparr>overall_score := 9\<rparr>"

definition evaluator_inflating :: "nat \<Rightarrow> content_evaluation attempt" where
  "evaluator_inflating = failing(2 := Returns (Some inflated))"

definition evaluator_late_approval :: "nat \<Rightarrow> content_evaluation attempt" where
  "evaluator_late_approval =
     failing(2 := Returns (Some (scored 7.2 False)), 4 := Returns (Some (scored 7 True)))"

text \<open>A stage that answers \<open>x\<close> at every call, and an evaluator that gives 6.0 without
  approval in round 1 and approves round 2.\<close>

definition answering :: "'a \<Rightarrow> nat \<Rightarrow> 'a attempt" where
  "answering x k = Returns (Some x)"

definition evaluator_improving :: "nat \<Rightarrow> content_evaluation attempt" where
  "evaluator_improving =
     failing(2 := Returns (Some (scored 6 False)), 4 := Returns (Some (scored 7.5 True)))"

section \<open>Properties of the stage invoker\<close>

text \<open>The result and the effects of \<open>run_with_retry\<close> for the three shapes of answers that
  the properties are about.\<close>

lemma retry_success_trace:
  fixes a :: "'a agent"
  assumes n: "n < 3"
    and fails: "\<forall>i<n. \<exists>e. respond a (runs w + i) input timeout = Raises e"
    and ok: "respond a (runs w + n) input timeout = Returns (Some out)"
  shows "run_with_retry a input timeout w =
           (Inr (Some out),
            w\<lparr>runs := runs w + n + 1,
              events := events w
                @ concat (map (\<lambda>i. [Run (name a) input timeout, Sleep (2 ^ i)]) [0..<n])
                @ [Run (name a) input timeout]\<rparr>)"
proof -
  from n consider "n = 0" | "n = 1" | "n = 2" by arith
  then show ?thesis
  proof cases
    case 1
    with ok show ?thesis
      by (simp add: run_with_retry_def record_run_def)
  next
    case 2
    from fails[rule_format, of 0] 2 obtain e where "respond a (runs w) input timeout = Raises e"
      by auto
    with ok 2 show ?thesis
      by (simp add: run_with_retry_def record_run_def sleep_def)
  next
    case 3
    from fails[rule_format, of 0] 3 obtain e where e: "respond a (runs w) input timeout = Raises e"
      by auto
    from fails[rule_format, of 1] 3 have "\<exists>e. respond a (runs w + 1) input timeout = Raises e"
      by simp
    then obtain e' where "respond a (Suc (runs w)) input timeout = Raises e'"
      by auto
    with e ok 3 show ?thesis
      by (simp add: run_with_retry_def record_run_def sleep_def upt_rec numeral_2_eq_2)
  qed
qed

lemma retry_exhausted_trace:
  fixes a :: "'a agent"
  assumes e0: "respond a (runs w) input timeout = Raises e0"
    and e1: "respond a (runs w + 1) input timeout = Raises e1"
    and e2: "respond a (runs w + 2) input timeout = Raises e2"
  shows "run_with_retry a input timeout w =
           (Inl e2,
            w\<lparr>runs := runs w + 3,
              events := events w @
                [Run (name a) input timeout, Sleep 1,
                 Run (name a) input timeout, Sleep 2,
                 Run (name a) input timeout]\<rparr>)"
  using assms by (simp add: run_with_retry_def record_run_def sleep_def)

lemma total_wait_append: "total_wait (xs @ ys) = total_wait xs + total_wait ys"
  by (simp add: total_wait_def)

lemma total_wait_backoff:
  "total_wait (concat (map (\<lambda>i. [Run nm input timeout, Sleep (2 ^ i)]) [0..<n])
               @ [Run nm input timeout])
     = (\<Sum>i<n. 2 ^ i)"
  by (induction n) (simp_all add: total_wait_def)

lemma retry_no_output_trace:
  fixes a :: "'a agent"
  assumes "\<forall>i<3. respond a (runs w + i) input timeout = Returns None"
  shows "run_with_retry a input timeout w =
           (Inr None,
            w\<lparr>runs := runs w + 3,
              events := events w @ replicate 3 (Run (name a) input timeout)\<rparr>)"
proof -
  have "respond a (runs w) input timeout = Returns None"
    "respond a (Suc (runs w)) input timeout = Returns None"
    "respond a (Suc (Suc (runs w))) input timeout = Returns None"
    using assms[rule_format, of 0] assms[rule_format, of 1] assms[rule_format, of 2] by simp_all
  then show ?thesis
    by (simp add: run_with_retry_def record_run_def numeral_3_eq_3)
qed

text \<open>
  C4, as amended. When the first \<open>n\<close> attempts of an invocation fail (a timeout or a raised
  error) and attempt \<open>n + 1\<close> succeeds, with \<open>n < 3\<close>, the invoker returns that result, it
  sleeps \<open>2 ^ i\<close> after the failure of the attempt of index \<open>i\<close> (counted from 0) and at no
  other moment, and the total wait is \<open>1 + 2 + \<dots> + 2 ^ (n - 1)\<close>. When the three attempts
  fail, the invoker raises the exception of the third attempt to its caller, having slept
  1 and 2, with no sleep after the third attempt.
\<close>

theorem run_with_retry_backoff:
  fixes a :: "'a agent" and b :: "'b agent"
  shows "(n < 3
          \<and> (\<forall>i<n. \<exists>e. respond a (runs w + i) input timeout = Raises e)
          \<and> respond a (runs w + n) input timeout = Returns (Some out)
          \<longrightarrow> fst (run_with_retry a input timeout w) = Inr (Some out)
              \<and> events (snd (run_with_retry a input timeout w)) =
                  events w
                  @ concat (map (\<lambda>i. [Run (name a) input timeout, Sleep (2 ^ i)]) [0..<n])
                  @ [Run (name a) input timeout]
              \<and> total_wait (events (snd (run_with_retry a input timeout w))) =
                  total_wait (events w) + (\<Sum>i<n. 2 ^ i))
       \<and> (respond b (runs v) q t = Raises e0
          \<and> respond b (runs v + 1) q t = Raises e1
          \<and> respond b (runs v + 2) q t = Raises e2
          \<longrightarrow> fst (run_with_retry b q t v) = Inl e2
              \<and> events (snd (run_with_retry b q t v)) =
                  events v @ [Run (name b) q t, Sleep 1, Run (name b) q t, Sleep 2, Run (name b) q t])"
proof (intro conjI impI)
  assume h: "n < 3
          \<and> (\<forall>i<n. \<exists>e. respond a (runs w + i) input timeout = Raises e)
          \<and> respond a (runs w + n) input timeout = Returns (Some out)"
  then have tr: "run_with_retry a input timeout w =
           (Inr (Some out),
            w\<lparr>runs := runs w + n + 1,
              events := events w
                @ concat (map (\<lambda>i. [Run (name a) input timeout, Sleep (2 ^ i)]) [0..<n])
                @ [Run (name a) input timeout]\<rparr>)"
    by (intro retry_success_trace) simp_all
  show "fst (run_with_retry a input timeout w) = Inr (Some out)"
    by (simp add: tr)
  show "events (snd (run_with_retry a input timeout w)) =
          events w
          @ concat (map (\<lambda>i. [Run (name a) input timeout, Sleep (2 ^ i)]) [0..<n])
          @ [Run (name a) input timeout]"
    by (simp add: tr)
  show "total_wait (events (snd (run_with_retry a input timeout w))) =
          total_wait (events w) + (\<Sum>i<n. 2 ^ i)"
    using total_wait_append[of "events w"
        "concat (map (\<lambda>i. [Run (name a) input timeout, Sleep (2 ^ i)]) [0..<n])
         @ [Run (name a) input timeout]"]
    by (simp add: tr total_wait_backoff)
next
  assume h: "respond b (runs v) q t = Raises e0
          \<and> respond b (runs v + 1) q t = Raises e1
          \<and> respond b (runs v + 2) q t = Raises e2"
  then have tr: "run_with_retry b q t v =
           (Inl e2,
            v\<lparr>runs := runs v + 3,
              events := events v @
                [Run (name b) q t, Sleep 1, Run (name b) q t, Sleep 2, Run (name b) q t]\<rparr>)"
    by (intro retry_exhausted_trace) simp_all
  show "fst (run_with_retry b q t v) = Inl e2"
    by (simp add: tr)
  show "events (snd (run_with_retry b q t v)) =
          events v @ [Run (name b) q t, Sleep 1, Run (name b) q t, Sleep 2, Run (name b) q t]"
    by (simp add: tr)
qed

theorem run_with_retry_backoff_witness:
  "fst (run_with_retry (flaky 2) ''q'' 180 world0) = Inr (Some ''ok'')
   \<and> total_wait (events (snd (run_with_retry (flaky 2) ''q'' 180 world0))) = 1 + 2
   \<and> fst (run_with_retry (flaky 3) ''q'' 180 world0) = Inl TimeoutError
   \<and> events (snd (run_with_retry (flaky 3) ''q'' 180 world0)) =
       [Run ''Deep Research Agent'' ''q'' 180, Sleep 1,
        Run ''Deep Research Agent'' ''q'' 180, Sleep 2,
        Run ''Deep Research Agent'' ''q'' 180]"
proof -
  have two: "2 < (3::nat)
      \<and> (\<forall>i<2. \<exists>e. respond (flaky 2) (runs world0 + i) ''q'' 180 = Raises e)
      \<and> respond (flaky 2) (runs world0 + 2) ''q'' 180 = Returns (Some ''ok'')"
    by (simp add: flaky_def scripted_def world0_def)
  have three: "respond (flaky 3) (runs world0) ''q'' 180 = Raises TimeoutError
      \<and> respond (flaky 3) (runs world0 + 1) ''q'' 180 = Raises TimeoutError
      \<and> respond (flaky 3) (runs world0 + 2) ''q'' 180 = Raises TimeoutError"
    by (simp add: flaky_def scripted_def world0_def)
  note th = run_with_retry_backoff[where n = 2 and a = "flaky 2" and w = world0
      and input = "''q''" and timeout = 180 and out = "''ok''" and b = "flaky 3" and v = world0
      and q = "''q''" and t = 180 and ?e0.0 = TimeoutError and ?e1.0 = TimeoutError
      and ?e2.0 = TimeoutError]
  from th[THEN conjunct1, THEN mp, OF two] th[THEN conjunct2, THEN mp, OF three]
  show ?thesis
    by (simp add: world0_def total_wait_def lessThan_Suc numeral_2_eq_2 flaky_def scripted_def)
qed

text \<open>
  C4 as stated allows \<open>n\<close> to be the number of attempts, 3. Against an agent that fails
  three times and would succeed on a fourth call, the invoker raises after the third
  failure: the total wait is \<open>1 + 2\<close>, not \<open>1 + 2 + 4\<close>, and no success is returned.
\<close>

theorem backoff_after_three_failures_counterexample:
  "respond (flaky 3) (runs world0 + 0) ''q'' 180 = Raises TimeoutError
   \<and> respond (flaky 3) (runs world0 + 1) ''q'' 180 = Raises TimeoutError
   \<and> respond (flaky 3) (runs world0 + 2) ''q'' 180 = Raises TimeoutError
   \<and> respond (flaky 3) (runs world0 + 3) ''q'' 180 = Returns (Some ''ok'')
   \<and> fst (run_with_retry (flaky 3) ''q'' 180 world0) = Inl TimeoutError
   \<and> total_wait (events (snd (run_with_retry (flaky 3) ''q'' 180 world0))) = 1 + 2
   \<and> total_wait (events (snd (run_with_retry (flaky 3) ''q'' 180 world0))) \<noteq> 1 + 2 + 4"
  by (simp add: flaky_def scripted_def world0_def run_with_retry_def record_run_def sleep_def
      total_wait_def)

text \<open>
  C10. An attempt whose call completes with a result that is absent or lacks
  \<^verbatim>\<open>final_output\<close> uses up its attempt and records no sleep: the remaining attempts go on
  from a world with one more call and nothing else. When the three attempts end this way
  the invoker returns \<^verbatim>\<open>None\<close>, having made three calls and no sleep, where three raised
  attempts make it raise the last exception.
\<close>

theorem run_with_retry_absent_result:
  fixes a :: "'a agent" and b :: "'b agent"
  shows "(respond a (runs w) input timeout = Returns None
          \<longrightarrow> retry_loop a input timeout (attempt # rest) w =
                retry_loop a input timeout rest
                  (w\<lparr>runs := Suc (runs w), events := events w @ [Run (name a) input timeout]\<rparr>))
       \<and> ((\<forall>i<3. respond a (runs w + i) input timeout = Returns None)
          \<longrightarrow> run_with_retry a input timeout w =
                (Inr None,
                 w\<lparr>runs := runs w + 3,
                   events := events w @ replicate 3 (Run (name a) input timeout)\<rparr>))
       \<and> (respond b (runs v) q t = Raises e0
          \<and> respond b (runs v + 1) q t = Raises e1
          \<and> respond b (runs v + 2) q t = Raises e2
          \<longrightarrow> fst (run_with_retry b q t v) = Inl e2)"
proof (intro conjI impI)
  assume "respond a (runs w) input timeout = Returns None"
  then show "retry_loop a input timeout (attempt # rest) w =
                retry_loop a input timeout rest
                  (w\<lparr>runs := Suc (runs w), events := events w @ [Run (name a) input timeout]\<rparr>)"
    by (simp add: record_run_def)
next
  assume "\<forall>i<3. respond a (runs w + i) input timeout = Returns None"
  then show "run_with_retry a input timeout w =
                (Inr None,
                 w\<lparr>runs := runs w + 3,
                   events := events w @ replicate 3 (Run (name a) input timeout)\<rparr>)"
    by (rule retry_no_output_trace)
next
  assume "respond b (runs v) q t = Raises e0
          \<and> respond b (runs v + 1) q t = Raises e1
          \<and> respond b (runs v + 2) q t = Raises e2"
  then have "run_with_retry b q t v =
           (Inl e2,
            v\<lparr>runs := runs v + 3,
              events := events v @
                [Run (name b) q t, Sleep 1, Run (name b) q t, Sleep 2, Run (name b) q t]\<rparr>)"
    by (intro retry_exhausted_trace) simp_all
  then show "fst (run_with_retry b q t v) = Inl e2"
    by simp
qed

theorem run_with_retry_absent_result_witness:
  "run_with_retry silent ''q'' 180 world0 =
     (Inr None,
      \<lparr>runs = 3,
       events = [Run ''Deep Research Agent'' ''q'' 180, Run ''Deep Research Agent'' ''q'' 180,
                 Run ''Deep Research Agent'' ''q'' 180]\<rparr>)
   \<and> retry_loop silent ''q'' 180 [0, 1, 2] world0 =
       retry_loop silent ''q'' 180 [1, 2]
         \<lparr>runs = 1, events = [Run ''Deep Research Agent'' ''q'' 180]\<rparr>
   \<and> fst (run_with_retry (flaky 3) ''q'' 180 world0) = Inl TimeoutError"
proof -
  have one: "respond silent (runs world0) ''q'' 180 = Returns None"
    by (simp add: silent_def scripted_def)
  have all: "\<forall>i<3. respond silent (runs world0 + i) ''q'' 180 = Returns None"
    by (simp add: silent_def scripted_def)
  have three: "respond (flaky 3) (runs world0) ''q'' 180 = Raises TimeoutError
      \<and> respond (flaky 3) (runs world0 + 1) ''q'' 180 = Raises TimeoutError
      \<and> respond (flaky 3) (runs world0 + 2) ''q'' 180 = Raises TimeoutError"
    by (simp add: flaky_def scripted_def world0_def)
  note th = run_with_retry_absent_result[where a = silent and w = world0 and input = "''q''"
      and timeout = 180 and attempt = 0 and rest = "[1, 2]" and b = "flaky 3" and v = world0
      and q = "''q''" and t = 180 and ?e0.0 = TimeoutError and ?e1.0 = TimeoutError
      and ?e2.0 = TimeoutError]
  from th[THEN conjunct1, THEN mp, OF one]
    th[THEN conjunct2, THEN conjunct1, THEN mp, OF all]
    th[THEN conjunct2, THEN conjunct2, THEN mp, OF three]
  show ?thesis
    by (simp add: world0_def silent_def scripted_def numeral_3_eq_3)
qed

section \<open>Running the examples\<close>

text \<open>Rewrite rules that evaluate a run against scripted agents without unfolding the
  prompts.\<close>

lemma runs_record_run: "runs (record_run a i t w) = Suc (runs w)"
  by (simp add: record_run_def)

lemma runs_sleep: "runs (sleep d w) = runs w"
  by (simp add: sleep_def)

lemma events_record_run: "events (record_run a i t w) = events w @ [Run (name a) i t]"
  by (simp add: record_run_def)

lemma events_sleep: "events (sleep d w) = events w @ [Sleep d]"
  by (simp add: sleep_def)

lemma retry_first_ok:
  "respond a (runs w) i t = Returns (Some out) \<Longrightarrow>
     run_with_retry a i t w = (Inr (Some out), record_run a i t w)"
  by (simp add: run_with_retry_def)

lemma retry_all_raise:
  "respond a (runs w) i t = Raises e0 \<Longrightarrow> respond a (Suc (runs w)) i t = Raises e1 \<Longrightarrow>
   respond a (Suc (Suc (runs w))) i t = Raises e2 \<Longrightarrow>
     run_with_retry a i t w =
       (Inl e2, record_run a i t (sleep 2 (record_run a i t (sleep 1 (record_run a i t w)))))"
  by (simp add: run_with_retry_def runs_record_run runs_sleep)

lemma example_prompt: "format_research_for_master_content example_lib research_dict = Inr example_prompt"
  by (simp add: example_prompt_def format_research_for_master_content_def getitem_def
      getitem_iter_def py_iter_def research_dict_def)

lemma example_eval_prompt:
  "format_content_for_evaluation example_lib c research_dict 0 =
     Inr (evaluation_head example_lib c (JStr ''AI tools'') 0
          @ previous_attempt_section example_lib 0 @ evaluation_task)"
  by (simp add: format_content_for_evaluation_def dict_get_def py_len_def research_dict_def)

lemma example_research:
  "research (example_env wr ev so st sc) topic w =
     (Some research_dict,
      record_run (scripted ''Deep Research Agent'' (\<lambda>k. Returns (Some research_json)))
        (''Research this topic comprehensively: '' @ topic) 180 w)"
  by (simp add: research_def example_env_def retry_first_ok scripted_def example_lib_def
      dict_get_def py_len_def research_dict_def)

lemma world0_sel: "runs world0 = 0" "events world0 = []"
  by (simp_all add: world0_def)

lemma example_env_sel:
  "research_agent (example_env wr ev so st sc) =
     scripted ''Deep Research Agent'' (\<lambda>k. Returns (Some research_json))"
  "master_content_agent (example_env wr ev so st sc) = scripted ''Master Content Writer'' wr"
  "evaluator_agent (example_env wr ev so st sc) = scripted ''Content Quality Evaluator'' ev"
  "social_media_agent (example_env wr ev so st sc) = scripted ''Social Media Agent'' so"
  "storage_agent (example_env wr ev so st sc) = scripted ''Content Storage Agent'' st"
  "scheduler_agent (example_env wr ev so st sc) = scripted ''Content Scheduling Agent'' sc"
  "lib (example_env wr ev so st sc) = example_lib"
  by (simp_all add: example_env_def)

lemma scripted_sel:
  "respond (scripted nm f) k i t = f k"
  "name (scripted nm f) = nm"
  by (simp_all add: scripted_def)

lemmas example_simps =
  example_env_sel scripted_sel runs_record_run runs_sleep retry_first_ok retry_all_raise
  example_prompt example_eval_prompt failing_def world0_sel

lemmas round_simps =
  draft_round_def produce_attempt_def judge_def loop_result_def scored_def example_simps

section \<open>Properties of the write and evaluate loop\<close>

lemma judge_best:
  "judge s mc ev = (fl, s') \<Longrightarrow>
     (best_content s', best_evaluation s', best_score s') =
       (if best_score s < overall_score ev then (Some mc, Some ev, overall_score ev)
        else (best_content s, best_evaluation s, best_score s))"
  by (auto simp: judge_def Let_def split: if_splits)

lemma judge_flow: "fst (judge s mc ev) = Break \<longleftrightarrow> approved ev"
  by (simp add: judge_def Let_def)

lemma judge_approved:
  "approved ev \<Longrightarrow>
     judge s mc ev =
       (Break,
        if best_score s < overall_score ev
        then s\<lparr>best_content := Some mc, best_evaluation := Some ev,
               best_score := overall_score ev\<rparr>
        else s)"
  by (simp add: judge_def Let_def)

lemma loop_best:
  "draft_evaluate_loop env rd rounds s w = (s', w') \<Longrightarrow>
     best_score s \<le> best_score s' \<and>
     (\<forall>a \<in> set (evaluated_attempts env rd rounds s w). overall_score (snd a) \<le> best_score s') \<and>
     ((best_content s' = best_content s \<and> best_evaluation s' = best_evaluation s
         \<and> best_score s' = best_score s)
      \<or> (\<exists>a \<in> set (evaluated_attempts env rd rounds s w).
            best_content s' = Some (fst a) \<and> best_evaluation s' = Some (snd a)
            \<and> best_score s' = overall_score (snd a) \<and> best_score s < overall_score (snd a)))"
proof (induction rounds arbitrary: s w)
  case Nil
  then show ?case by simp
next
  case (Cons attempt rest)
  obtain r w1 where pa: "produce_attempt env rd (prompt s) w = (r, w1)"
    by (cases "produce_attempt env rd (prompt s) w")
  show ?case
  proof (cases r)
    case None
    with pa Cons.prems have "draft_evaluate_loop env rd rest s w1 = (s', w')"
      by (simp add: draft_round_def)
    from Cons.IH[OF this] pa None show ?thesis
      by simp
  next
    case (Some a)
    obtain mc ev where a: "a = (mc, ev)" by (cases a)
    obtain fl s1 where j: "judge s mc ev = (fl, s1)" by (cases "judge s mc ev")
    note jb = judge_best[OF j]
    show ?thesis
    proof (cases fl)
      case Break
      with pa Some a j Cons.prems have "s' = s1"
        by (simp add: draft_round_def)
      with jb pa Some a j Break show ?thesis
        by (auto split: if_splits)
    next
      case Continue
      with pa Some a j Cons.prems have l: "draft_evaluate_loop env rd rest s1 w1 = (s', w')"
        by (simp add: draft_round_def)
      have ea: "evaluated_attempts env rd (attempt # rest) s w
                  = (mc, ev) # evaluated_attempts env rd rest s1 w1"
        using pa Some a j Continue by simp
      from Cons.IH[OF l] jb show ?thesis
        unfolding ea by (auto split: if_splits)
    qed
  qed
qed

lemma retry_loop_answer:
  "retry_loop a i t as w = (Inr (Some out), w') \<Longrightarrow> \<exists>k. respond a k i t = Returns (Some out)"
proof (induction as arbitrary: w)
  case Nil
  then show ?case by simp
next
  case (Cons attempt rest)
  show ?case
  proof (cases "respond a (runs w) i t")
    case (Raises e)
    with Cons show ?thesis
      by (auto simp: Let_def split: if_splits)
  next
    case (Returns r)
    with Cons show ?thesis
      by (cases r) (auto simp: Let_def)
  qed
qed

lemma produce_attempt_answer:
  assumes "produce_attempt env rd p w = (Some (mc, ev), w')"
  shows "\<exists>k i t. respond (evaluator_agent env) k i t = Returns (Some ev)"
proof -
  from assms obtain ep w1 where
    "run_with_retry (evaluator_agent env) ep 120 w1 = (Inr (Some ev), w')"
    by (auto simp: produce_attempt_def split: prod.splits sum.splits option.splits)
  then show ?thesis
    unfolding run_with_retry_def by (blast dest: retry_loop_answer)
qed

lemma attempts_answer:
  "a \<in> set (evaluated_attempts env rd rounds s w) \<Longrightarrow>
     \<exists>k i t. respond (evaluator_agent env) k i t = Returns (Some (snd a))"
proof (induction rounds arbitrary: s w)
  case Nil
  then show ?case by simp
next
  case (Cons attempt rest)
  obtain r w1 where pa: "produce_attempt env rd (prompt s) w = (r, w1)"
    by (cases "produce_attempt env rd (prompt s) w")
  show ?case
  proof (cases r)
    case None
    with pa Cons show ?thesis by simp
  next
    case (Some b)
    obtain mc ev where b: "b = (mc, ev)" by (cases b)
    from pa Some b have here: "\<exists>k i t. respond (evaluator_agent env) k i t = Returns (Some ev)"
      by (auto dest: produce_attempt_answer)
    from Cons.prems pa Some b
    consider "a = (mc, ev)"
      | s1 where "a \<in> set (evaluated_attempts env rd rest s1 w1)"
      by (auto split: prod.splits flow.splits)
    then show ?thesis
    proof cases
      case 1
      with here show ?thesis by simp
    next
      case 2
      then show ?thesis by (rule Cons.IH)
    qed
  qed
qed

lemma loop_from_start:
  assumes l: "draft_evaluate_loop env rd rounds
                \<lparr>best_content = None, best_evaluation = None, best_score = 0, prompt = p\<rparr> w
              = (s', w')"
  shows "(best_content s' = None \<and> best_evaluation s' = None
          \<and> (\<forall>a \<in> set (evaluated_attempts env rd rounds
                \<lparr>best_content = None, best_evaluation = None, best_score = 0, prompt = p\<rparr> w).
               overall_score (snd a) \<le> 0))
       \<or> (\<exists>a \<in> set (evaluated_attempts env rd rounds
                \<lparr>best_content = None, best_evaluation = None, best_score = 0, prompt = p\<rparr> w).
            best_content s' = Some (fst a) \<and> best_evaluation s' = Some (snd a)
            \<and> 0 < overall_score (snd a)
            \<and> (\<forall>b \<in> set (evaluated_attempts env rd rounds
                \<lparr>best_content = None, best_evaluation = None, best_score = 0, prompt = p\<rparr> w).
                  overall_score (snd b) \<le> overall_score (snd a)))"
proof -
  let ?A = "evaluated_attempts env rd rounds
              \<lparr>best_content = None, best_evaluation = None, best_score = 0, prompt = p\<rparr> w"
  from loop_best[OF l] have ub: "\<forall>a \<in> set ?A. overall_score (snd a) \<le> best_score s'"
    and alt: "(best_content s' = None \<and> best_evaluation s' = None \<and> best_score s' = 0)
      \<or> (\<exists>a \<in> set ?A. best_content s' = Some (fst a) \<and> best_evaluation s' = Some (snd a)
            \<and> best_score s' = overall_score (snd a) \<and> 0 < overall_score (snd a))"
    by simp_all
  from alt show ?thesis
  proof
    assume "best_content s' = None \<and> best_evaluation s' = None \<and> best_score s' = 0"
    with ub show ?thesis
      by simp
  next
    assume "\<exists>a \<in> set ?A. best_content s' = Some (fst a) \<and> best_evaluation s' = Some (snd a)
            \<and> best_score s' = overall_score (snd a) \<and> 0 < overall_score (snd a)"
    then obtain a where a: "a \<in> set ?A" "best_content s' = Some (fst a)"
      "best_evaluation s' = Some (snd a)" "best_score s' = overall_score (snd a)"
      "0 < overall_score (snd a)"
      by blast
    from ub a(4) have "\<forall>b \<in> set ?A. overall_score (snd b) \<le> overall_score (snd a)"
      by simp
    with a show ?thesis
      by blast
  qed
qed

text \<open>
  C1. In a round whose writer and evaluator both give a result, the retained best attempt
  (content, evaluation, score) becomes this round's attempt when the overall score of the
  round is strictly greater than the best score so far, and is left as it was when the
  score is equal or lower. The best score of the first round is the \<open>0\<close> of \<open>best_draft\<close>.
\<close>

theorem best_replaced_when_strictly_greater:
  assumes "produce_attempt env research_data (prompt s) w = (Some (master_content, evaluation), w')"
  shows "(let s' = snd (fst (draft_round env research_data s w)) in
          (best_content s', best_evaluation s', best_score s') =
            (if best_score s < overall_score evaluation
             then (Some master_content, Some evaluation, overall_score evaluation)
             else (best_content s, best_evaluation s, best_score s)))"
proof -
  obtain fl s1 where j: "judge s master_content evaluation = (fl, s1)"
    by (cases "judge s master_content evaluation")
  with assms have "snd (fst (draft_round env research_data s w)) = s1"
    by (simp add: draft_round_def)
  with judge_best[OF j] show ?thesis
    by (simp add: Let_def)
qed

theorem best_replaced_when_strictly_greater_witness:
  "(let env = example_env writer_two evaluator_late_approval failing failing failing;
        s0 = \<lparr>best_content = None, best_evaluation = None, best_score = 0,
              prompt = example_prompt\<rparr>;
        s1 = snd (fst (draft_round env research_dict s0 world1));
        s2 = snd (fst (draft_round env research_dict s1 \<lparr>runs = 3, events = []\<rparr>))
    in (best_content s1, best_evaluation s1, best_score s1) =
         (Some ''first-draft'', Some (scored 7.2 False), 7.2)
       \<and> (best_content s2, best_evaluation s2, best_score s2) =
         (Some ''first-draft'', Some (scored 7.2 False), 7.2))"
proof -
  let ?env = "example_env writer_two evaluator_late_approval failing failing failing"
  let ?s0 = "\<lparr>best_content = None, best_evaluation = None, best_score = 0,
              prompt = example_prompt\<rparr>"
  let ?s1 = "snd (fst (draft_round ?env research_dict ?s0 world1))"
  let ?w3 = "\<lparr>runs = 3, events = []\<rparr>"
  have s1: "?s1 =
      \<lparr>best_content = Some ''first-draft'', best_evaluation = Some (scored 7.2 False),
       best_score = 7.2,
       prompt = concat [example_prompt, nl, nl, ''PREVIOUS FEEDBACK:'', nl,
                        ''Add examples.'', nl, nl, ''Rewrite addressing all issues.'']\<rparr>"
    by (simp add: round_simps writer_two_def evaluator_late_approval_def world1_def)
  have p1: "produce_attempt ?env research_dict (prompt ?s0) world1 =
      (Some (''first-draft'', scored 7.2 False),
       snd (produce_attempt ?env research_dict (prompt ?s0) world1))"
    by (simp add: round_simps writer_two_def evaluator_late_approval_def world1_def)
  have p2: "produce_attempt ?env research_dict (prompt ?s1) ?w3 =
      (Some (''second-draft'', scored 7 True),
       snd (produce_attempt ?env research_dict (prompt ?s1) ?w3))"
    by (simp add: round_simps writer_two_def evaluator_late_approval_def)
  from best_replaced_when_strictly_greater[OF p1] best_replaced_when_strictly_greater[OF p2]
  show ?thesis
    by (simp add: Let_def s1 scored_def)
qed




text \<open>
  The flag and the score agree when the evaluator keeps to its instructions, which approve
  at an overall score of 7.0 or more. Then no round before an approving one reached 7, the
  approving round is a new best, and the loop returns its attempt.
\<close>

lemma approval_by_threshold:
  assumes contract: "\<forall>k i t e. respond (evaluator_agent env) k i t = Returns (Some e)
                       \<longrightarrow> (approved e \<longleftrightarrow> 7 \<le> overall_score e)"
  shows "best_score s < 7 \<Longrightarrow> draft_evaluate_loop env rd rounds s w = (s', w') \<Longrightarrow>
         evaluated_attempts env rd rounds s w = earlier @ [(mc, ev)] \<Longrightarrow> approved ev \<Longrightarrow>
         best_content s' = Some mc \<and> best_evaluation s' = Some ev"
proof (induction rounds arbitrary: s w earlier)
  case Nil
  then show ?case by simp
next
  case (Cons attempt rest)
  obtain r w1 where pa: "produce_attempt env rd (prompt s) w = (r, w1)"
    by (cases "produce_attempt env rd (prompt s) w")
  show ?case
  proof (cases r)
    case None
    with pa Cons.prems have "draft_evaluate_loop env rd rest s w1 = (s', w')"
      "evaluated_attempts env rd rest s w1 = earlier @ [(mc, ev)]"
      by (simp_all add: draft_round_def)
    with Cons.IH Cons.prems(1,4) show ?thesis
      by blast
  next
    case (Some a)
    obtain mc1 ev1 where a: "a = (mc1, ev1)" by (cases a)
    from pa Some a have "\<exists>k i t. respond (evaluator_agent env) k i t = Returns (Some ev1)"
      by (auto dest: produce_attempt_answer)
    with contract have thr: "approved ev1 \<longleftrightarrow> 7 \<le> overall_score ev1"
      by blast
    show ?thesis
    proof (cases "approved ev1")
      case True
      with pa Some a Cons.prems(3) have "(mc, ev) = (mc1, ev1)"
        by (simp add: judge_approved)
      moreover from True thr Cons.prems(1) have "best_score s < overall_score ev1"
        by simp
      moreover from pa Some a True Cons.prems(2)
      have "s' = (if best_score s < overall_score ev1
                  then s\<lparr>best_content := Some mc1, best_evaluation := Some ev1,
                         best_score := overall_score ev1\<rparr>
                  else s)"
        by (simp add: draft_round_def judge_approved)
      ultimately show ?thesis
        by simp
    next
      case False
      obtain fl s1 where j: "judge s mc1 ev1 = (fl, s1)" by (cases "judge s mc1 ev1")
      with False have fl: "fl = Continue"
        using judge_flow[of s mc1 ev1] by (cases fl) simp_all
      from judge_best[OF j] False thr Cons.prems(1) have s1: "best_score s1 < 7"
        by (auto split: if_splits)
      from pa Some a j fl Cons.prems(2) have l: "draft_evaluate_loop env rd rest s1 w1 = (s', w')"
        by (simp add: draft_round_def)
      from pa Some a j fl Cons.prems(3)
      have ea: "(mc1, ev1) # evaluated_attempts env rd rest s1 w1 = earlier @ [(mc, ev)]"
        by simp
      have "earlier \<noteq> []"
      proof
        assume "earlier = []"
        with ea have "ev = ev1" by simp
        with False Cons.prems(4) show False by simp
      qed
      then obtain earlier' where "earlier = (mc1, ev1) # earlier'"
        using ea by (cases earlier) auto
      with ea have "evaluated_attempts env rd rest s1 w1 = earlier' @ [(mc, ev)]"
        by simp
      from Cons.IH[OF s1 l this Cons.prems(4)] show ?thesis .
    qed
  qed
qed

text \<open>
  C3, as amended. The loop started as \<open>run_workflow\<close> starts it returns an absent result
  exactly when no round produced an evaluated draft with an overall score strictly above
  0, or the retained best draft is the empty text. Otherwise it returns one of the
  evaluated attempts, one of positive score that no other evaluated attempt exceeds; it
  never raises.
\<close>

theorem loop_absent_iff_no_positive_score:
  fixes env research_data rounds p w
  defines "s0 \<equiv> \<lparr>best_content = None, best_evaluation = None, best_score = 0, prompt = p\<rparr>"
  defines "s' \<equiv> fst (draft_evaluate_loop env research_data rounds s0 w)"
  defines "attempts \<equiv> evaluated_attempts env research_data rounds s0 w"
  shows "(loop_result s' = Inr None \<longleftrightarrow>
            (\<forall>a \<in> set attempts. overall_score (snd a) \<le> 0) \<or> best_content s' = Some [])
       \<and> (\<forall>c ev. loop_result s' = Inr (Some (c, ev)) \<longrightarrow>
            (c, ev) \<in> set attempts \<and> 0 < overall_score ev
            \<and> (\<forall>a \<in> set attempts. overall_score (snd a) \<le> overall_score ev))
       \<and> (\<forall>e. loop_result s' \<noteq> Inl e)"
proof -
  obtain w' where l: "draft_evaluate_loop env research_data rounds s0 w = (s', w')"
    unfolding s'_def by (cases "draft_evaluate_loop env research_data rounds s0 w") simp
  from loop_from_start[OF l[unfolded s0_def]] have
    alt: "(best_content s' = None \<and> best_evaluation s' = None
            \<and> (\<forall>a \<in> set attempts. overall_score (snd a) \<le> 0))
      \<or> (\<exists>a \<in> set attempts.
            best_content s' = Some (fst a) \<and> best_evaluation s' = Some (snd a)
            \<and> 0 < overall_score (snd a)
            \<and> (\<forall>b \<in> set attempts. overall_score (snd b) \<le> overall_score (snd a)))"
    unfolding attempts_def s0_def .
  from alt show ?thesis
  proof
    assume "best_content s' = None \<and> best_evaluation s' = None
            \<and> (\<forall>a \<in> set attempts. overall_score (snd a) \<le> 0)"
    then show ?thesis
      by (simp add: loop_result_def)
  next
    assume "\<exists>a \<in> set attempts.
            best_content s' = Some (fst a) \<and> best_evaluation s' = Some (snd a)
            \<and> 0 < overall_score (snd a)
            \<and> (\<forall>b \<in> set attempts. overall_score (snd b) \<le> overall_score (snd a))"
    then obtain a where a: "a \<in> set attempts" "best_content s' = Some (fst a)"
      "best_evaluation s' = Some (snd a)" "0 < overall_score (snd a)"
      and ub: "\<forall>b \<in> set attempts. overall_score (snd b) \<le> overall_score (snd a)"
      by blast
    have pos: "\<not> (\<forall>a \<in> set attempts. overall_score (snd a) \<le> 0)"
      using a(1,4) by (auto simp: not_le)
    show ?thesis
    proof (cases "fst a = []")
      case True
      with a show ?thesis
        by (simp add: loop_result_def)
    next
      case False
      with a have "loop_result s' = Inr (Some (fst a, snd a))"
        by (simp add: loop_result_def)
      with a ub pos False show ?thesis
        by auto
    qed
  qed
qed

theorem loop_absent_iff_no_positive_score_witness:
  "(let s0 = \<lparr>best_content = None, best_evaluation = None, best_score = 0,
              prompt = example_prompt\<rparr>;
        env = example_env writer_two evaluator_late_approval failing failing failing;
        quiet = example_env failing failing failing failing failing
    in loop_result (fst (draft_evaluate_loop env research_dict [1, 2, 3] s0 world1)) =
         Inr (Some (''first-draft'', scored 7.2 False))
       \<and> (''first-draft'', scored 7.2 False)
           \<in> set (evaluated_attempts env research_dict [1, 2, 3] s0 world1)
       \<and> loop_result (fst (draft_evaluate_loop quiet research_dict [1, 2, 3] s0 world1)) = Inr None
       \<and> evaluated_attempts quiet research_dict [1, 2, 3] s0 world1 = [])"
proof -
  let ?s0 = "\<lparr>best_content = None, best_evaluation = None, best_score = 0,
              prompt = example_prompt\<rparr>"
  let ?env = "example_env writer_two evaluator_late_approval failing failing failing"
  let ?quiet = "example_env failing failing failing failing failing"
  have lr: "loop_result (fst (draft_evaluate_loop ?env research_dict [1, 2, 3] ?s0 world1)) =
         Inr (Some (''first-draft'', scored 7.2 False))"
    by (simp add: round_simps writer_two_def evaluator_late_approval_def world1_def)
  have none: "evaluated_attempts ?quiet research_dict [1, 2, 3] ?s0 world1 = []"
    by (simp add: round_simps world1_def)
  then have hyp: "(\<forall>a \<in> set (evaluated_attempts ?quiet research_dict [1, 2, 3] ?s0 world1).
                     overall_score (snd a) \<le> 0)
                  \<or> best_content (fst (draft_evaluate_loop ?quiet research_dict [1, 2, 3] ?s0 world1))
                      = Some []"
    by simp
  note th1 = loop_absent_iff_no_positive_score[where env = ?env and research_data = research_dict
      and rounds = "[1, 2, 3]" and p = example_prompt and w = world1]
  note th2 = loop_absent_iff_no_positive_score[where env = ?quiet and research_data = research_dict
      and rounds = "[1, 2, 3]" and p = example_prompt and w = world1]
  from th1[THEN conjunct2, THEN conjunct1, rule_format, OF lr]
    th2[THEN conjunct1, THEN iffD2, OF hyp] lr none
  show ?thesis
    unfolding Let_def by blast
qed

text \<open>
  C3 as stated promises the best attempt as soon as one round was evaluated. The best score
  starts at 0 and is replaced only by a strictly greater one: three rounds that are each
  evaluated with an overall score of 0 leave nothing retained, and the run returns
  \<^verbatim>\<open>None\<close>.
\<close>

theorem evaluated_rounds_yet_absent_counterexample:
  "evaluated_attempts (example_env writer_three evaluator_zero failing failing failing)
      research_dict [1, 2, 3]
      \<lparr>best_content = None, best_evaluation = None, best_score = 0, prompt = example_prompt\<rparr>
      world1 =
     [(''first-draft'', scored 0 False), (''second-draft'', scored 0 False),
      (''third-draft'', scored 0 False)]
   \<and> loop_result (fst (draft_evaluate_loop
        (example_env writer_three evaluator_zero failing failing failing)
        research_dict [1, 2, 3]
        \<lparr>best_content = None, best_evaluation = None, best_score = 0, prompt = example_prompt\<rparr>
        world1)) = Inr None
   \<and> fst (run_workflow (example_env writer_three evaluator_zero failing failing failing)
        ''AI tools'' world0) = Inr None"
  by (simp add: run_workflow_def best_draft_def example_research round_simps writer_three_def
      evaluator_zero_def world1_def)

text \<open>The evaluation that \<open>best_draft\<close> hands on is the one retained by the loop of
  \<open>run_workflow\<close>.\<close>

lemma loop_result_Some:
  "loop_result s = Inr (Some (c, ev)) \<Longrightarrow> best_content s = Some c \<and> best_evaluation s = Some ev"
  by (auto simp: loop_result_def split: option.splits if_splits)

lemma best_draft_loop:
  assumes "best_draft env topic w = (Inr (Some (c, ev)), w')"
  shows "\<exists>rd p w1 s'.
           draft_evaluate_loop env rd [1, 2, 3]
             \<lparr>best_content = None, best_evaluation = None, best_score = 0, prompt = p\<rparr> w1
             = (s', w')
           \<and> loop_result s' = Inr (Some (c, ev))"
  using assms
  by (auto simp: best_draft_def simp del: draft_evaluate_loop.simps
      split: prod.splits option.splits sum.splits)

text \<open>
  C9, as amended. The evaluation that the loop accepts as best is, unchanged, an answer of
  the evaluator agent: the loop compares its overall score and recomputes nothing. So the
  overall score of an accepted evaluation is the weighted sum
  \<open>0.4 * authenticity + 0.3 * quality + 0.2 * completeness + 0.1 * depth\<close> within 0.05
  whenever every answer of the evaluator is.
\<close>

theorem accepted_evaluation_as_reported:
  assumes bd: "best_draft env topic w = (Inr (Some (content, evaluation)), w')"
  shows "(\<exists>k i t. respond (evaluator_agent env) k i t = Returns (Some evaluation))
       \<and> ((\<forall>k i t e. respond (evaluator_agent env) k i t = Returns (Some e) \<longrightarrow> within_tolerance e)
            \<longrightarrow> within_tolerance evaluation)"
proof -
  from best_draft_loop[OF bd] obtain rd p w1 s' where
    l: "draft_evaluate_loop env rd [1, 2, 3]
          \<lparr>best_content = None, best_evaluation = None, best_score = 0, prompt = p\<rparr> w1 = (s', w')"
    and lr: "loop_result s' = Inr (Some (content, evaluation))"
    by blast
  from loop_result_Some[OF lr] have b: "best_content s' = Some content"
    "best_evaluation s' = Some evaluation"
    by simp_all
  with loop_from_start[OF l] obtain a where
    "a \<in> set (evaluated_attempts env rd [1, 2, 3]
        \<lparr>best_content = None, best_evaluation = None, best_score = 0, prompt = p\<rparr> w1)"
    "snd a = evaluation"
    by (auto simp del: evaluated_attempts.simps)
  with attempts_answer have "\<exists>k i t. respond (evaluator_agent env) k i t = Returns (Some evaluation)"
    by blast
  then show ?thesis
    by blast
qed

theorem accepted_evaluation_as_reported_witness:
  "fst (best_draft (example_env writer_one evaluator_approving failing failing failing)
          ''AI tools'' world0) = Inr (Some (''first-draft'', scored 8.5 True))
   \<and> within_tolerance (scored 8.5 True)"
proof -
  let ?env = "example_env writer_one evaluator_approving failing failing failing"
  have bd: "best_draft ?env ''AI tools'' world0 =
      (Inr (Some (''first-draft'', scored 8.5 True)), snd (best_draft ?env ''AI tools'' world0))"
    by (simp add: best_draft_def example_research round_simps writer_one_def
        evaluator_approving_def)
  have contract: "\<forall>k i t e. respond (evaluator_agent ?env) k i t = Returns (Some e)
                    \<longrightarrow> within_tolerance e"
    by (simp add: example_simps evaluator_approving_def within_tolerance_def
        weighted_overall_def scored_def)
  have "fst (best_draft ?env ''AI tools'' world0) = Inr (Some (''first-draft'', scored 8.5 True))"
    by (subst bd) (rule fst_conv)
  with accepted_evaluation_as_reported[OF bd, THEN conjunct2, THEN mp, OF contract]
  show ?thesis
    by blast
qed

text \<open>
  C9 as stated holds of every accepted evaluation. An evaluator that answers four
  sub-scores of 5 and an overall score of 9 is accepted as best all the same: the weighted
  sum is 5.
\<close>

theorem accepted_evaluation_off_weights_counterexample:
  "fst (best_draft (example_env writer_one evaluator_inflating failing failing failing)
          ''AI tools'' world0) = Inr (Some (''first-draft'', inflated))
   \<and> overall_score inflated = 9
   \<and> weighted_overall inflated = 5
   \<and> \<not> within_tolerance inflated"
  by (simp add: best_draft_def example_research round_simps writer_one_def
      evaluator_inflating_def inflated_def within_tolerance_def weighted_overall_def)

section \<open>The prompt of the evaluator\<close>

lemma previous_attempt_section_shown:
  "0 < previous_score \<Longrightarrow> previous_attempt_section rt previous_score \<noteq> []"
  by (simp add: previous_attempt_section_def nl_def)

lemma previous_attempt_section_hidden: "previous_attempt_section rt 0 = []"
  by (simp add: previous_attempt_section_def)

text \<open>
  C5. The claim is that from the second round on the evaluator is given the best score so
  far. \<open>produce_attempt\<close> calls \<^verbatim>\<open>format_content_for_evaluation(master_content,
  research_data)\<close> without the third argument, so the section on the previous attempt is
  never written. In the run below round 1 is evaluated at 6.0 without approval; the
  evaluator of round 2 is asked the prompt that the formatter gives for the previous score
  0, which is not the prompt for the previous score 6.
\<close>

theorem evaluator_prompt_omits_best_score:
  "(let env = example_env writer_two evaluator_improving failing failing failing;
        s0 = \<lparr>best_content = None, best_evaluation = None, best_score = 0,
              prompt = example_prompt\<rparr>;
        s1 = snd (fst (draft_round env research_dict s0 world1));
        w1 = snd (draft_round env research_dict s0 world1);
        asked = evaluation_head example_lib ''second-draft'' (JStr ''AI tools'') 0
                @ evaluation_task
    in best_score s1 = 6
       \<and> events (snd (draft_round env research_dict s1 w1)) =
           events w1 @ [Run ''Master Content Writer'' (prompt s1) 150,
                        Run ''Content Quality Evaluator'' asked 120]
       \<and> format_content_for_evaluation example_lib ''second-draft'' research_dict 0 = Inr asked
       \<and> format_content_for_evaluation example_lib ''second-draft'' research_dict 6 =
           Inr (evaluation_head example_lib ''second-draft'' (JStr ''AI tools'') 0
                @ previous_attempt_section example_lib 6 @ evaluation_task)
       \<and> format_content_for_evaluation example_lib ''second-draft'' research_dict 6 \<noteq> Inr asked)"
proof -
  have ne: "previous_attempt_section example_lib 6 \<noteq> []"
    by (rule previous_attempt_section_shown) simp
  have six: "format_content_for_evaluation example_lib ''second-draft'' research_dict 6 =
           Inr (evaluation_head example_lib ''second-draft'' (JStr ''AI tools'') 0
                @ previous_attempt_section example_lib 6 @ evaluation_task)"
    by (simp add: format_content_for_evaluation_def dict_get_def py_len_def research_dict_def)
  show ?thesis
    unfolding Let_def six
    using ne
    by (simp add: round_simps writer_two_def evaluator_improving_def world1_def
        previous_attempt_section_hidden events_record_run)
qed

section \<open>Properties of the pipeline\<close>

text \<open>What an invocation records: a first call of its agent, then only further calls of the
  same agent on the same input and sleeps.\<close>

lemma retry_loop_events:
  "\<exists>es. events (snd (retry_loop a i t as w)) = events w @ es
        \<and> (\<forall>e \<in> set es. e = Run (name a) i t \<or> is_sleep e)
        \<and> (as \<noteq> [] \<longrightarrow> es \<noteq> [] \<and> hd es = Run (name a) i t)"
proof (induction as arbitrary: w)
  case Nil
  show ?case by simp
next
  case (Cons attempt rest)
  let ?w1 = "record_run a i t w"
  have ev1: "events ?w1 = events w @ [Run (name a) i t]"
    by (simp add: record_run_def)
  show ?case
  proof (cases "respond a (runs w) i t")
    case (Raises e)
    show ?thesis
    proof (cases "attempt < 2")
      case True
      from Cons.IH[of "sleep (2 ^ attempt) ?w1"] obtain es where
        es: "events (snd (retry_loop a i t rest (sleep (2 ^ attempt) ?w1))) =
               events (sleep (2 ^ attempt) ?w1) @ es"
          "\<forall>e \<in> set es. e = Run (name a) i t \<or> is_sleep e"
        by blast
      have "events (snd (retry_loop a i t (attempt # rest) w)) =
              events w @ (Run (name a) i t # Sleep (2 ^ attempt) # es)"
        using Raises True es(1) by (simp add: Let_def sleep_def ev1)
      with es(2) show ?thesis
        by (intro exI[of _ "Run (name a) i t # Sleep (2 ^ attempt) # es"]) simp
    next
      case False
      with Raises have "events (snd (retry_loop a i t (attempt # rest) w)) =
              events w @ [Run (name a) i t]"
        by (simp add: Let_def ev1)
      then show ?thesis
        by (intro exI[of _ "[Run (name a) i t]"]) simp
    qed
  next
    case (Returns r)
    show ?thesis
    proof (cases r)
      case None
      from Cons.IH[of ?w1] obtain es where
        es: "events (snd (retry_loop a i t rest ?w1)) = events ?w1 @ es"
          "\<forall>e \<in> set es. e = Run (name a) i t \<or> is_sleep e"
        by blast
      have "events (snd (retry_loop a i t (attempt # rest) w)) =
              events w @ (Run (name a) i t # es)"
        using Returns None es(1) by (simp add: Let_def ev1)
      with es(2) show ?thesis
        by (intro exI[of _ "Run (name a) i t # es"]) simp
    next
      case (Some out)
      with Returns have "events (snd (retry_loop a i t (attempt # rest) w)) =
              events w @ [Run (name a) i t]"
        by (simp add: Let_def ev1)
      then show ?thesis
        by (intro exI[of _ "[Run (name a) i t]"]) simp
    qed
  qed
qed

lemma run_with_retry_events:
  "\<exists>es. events (snd (run_with_retry a i t w)) = events w @ Run (name a) i t # es
        \<and> (\<forall>e \<in> set es. e = Run (name a) i t \<or> is_sleep e)"
proof -
  from retry_loop_events[of a i t "[0, 1, 2]" w] obtain es where
    es: "events (snd (run_with_retry a i t w)) = events w @ es"
      "\<forall>e \<in> set es. e = Run (name a) i t \<or> is_sleep e" "es \<noteq> []" "hd es = Run (name a) i t"
    unfolding run_with_retry_def by auto
  then obtain es' where "es = Run (name a) i t # es'"
    by (cases es) auto
  with es show ?thesis
    by auto
qed

lemma social_media_failed:
  assumes "fst (run_with_retry (social_media_agent env)
                  (format_master_content_for_social (lib env) content topic) 120 w) = Inr None
           \<or> (\<exists>e. fst (run_with_retry (social_media_agent env)
                  (format_master_content_for_social (lib env) content topic) 120 w) = Inl e)"
  shows "social_media env topic content w =
           (None, snd (run_with_retry (social_media_agent env)
                         (format_master_content_for_social (lib env) content topic) 120 w))"
  using assms by (auto simp: social_media_def split: prod.splits sum.splits option.splits)

lemma social_media_done:
  assumes "fst (run_with_retry (social_media_agent env)
                  (format_master_content_for_social (lib env) content topic) 120 w)
           = Inr (Some social_content)"
  shows "social_media env topic content w =
           (Some social_content,
            snd (run_with_retry (social_media_agent env)
                   (format_master_content_for_social (lib env) content topic) 120 w))"
  using assms by (auto simp: social_media_def split: prod.splits sum.splits option.splits)

lemma scheduling_events:
  "\<exists>es. events (snd (scheduling env topic social_content w)) =
          events w @ Run (name (scheduler_agent env))
                       (format_content_for_scheduling topic social_content) 120 # es"
proof -
  have "snd (scheduling env topic social_content w) =
          snd (run_with_retry (scheduler_agent env)
                 (format_content_for_scheduling topic social_content) 120 w)"
    by (simp add: scheduling_def split: prod.splits sum.splits option.splits)
  with run_with_retry_events[of "scheduler_agent env"
      "format_content_for_scheduling topic social_content" 120 w]
  show ?thesis
    by auto
qed

lemma one_round_draft:
  "best_draft (example_env writer_one evaluator_approving so st sc) ''AI tools'' world0 =
     (Inr (Some (''first-draft'', scored 8.5 True)),
      snd (best_draft (example_env writer_one evaluator_approving so st sc) ''AI tools'' world0))"
  "runs (snd (best_draft (example_env writer_one evaluator_approving so st sc)
                ''AI tools'' world0)) = 3"
  by (simp_all add: best_draft_def example_research round_simps writer_one_def
      evaluator_approving_def)

text \<open>
  C7. When the run has a best draft and the repurpose stage fails (its invocation returns
  \<^verbatim>\<open>None\<close> or raises), \<open>run_workflow\<close> returns the dictionary with the topic, the best
  draft, its evaluation and \<^verbatim>\<open>None\<close> for the social media content, with no entry for
  storage or schedule. The world it leaves is the one that the repurpose invocation
  leaves: after the best draft, every event is a call of the social media agent or a
  sleep, so the storage agent and the scheduler are never run.
\<close>

theorem repurpose_failure_skips_persist_and_schedule:
  assumes bd: "best_draft env topic w = (Inr (Some (content, evaluation)), w2)"
    and fail: "fst (run_with_retry (social_media_agent env)
                  (format_master_content_for_social (lib env) content topic) 120 w2) = Inr None
           \<or> (\<exists>e. fst (run_with_retry (social_media_agent env)
                  (format_master_content_for_social (lib env) content topic) 120 w2) = Inl e)"
  shows "run_workflow env topic w =
           (Inr (Some [''topic'' \<mapsto> PyStr topic,
                       ''master_content'' \<mapsto> PyStr content,
                       ''evaluation'' \<mapsto> Evaluation evaluation,
                       ''social_media'' \<mapsto> PyNone]),
            snd (run_with_retry (social_media_agent env)
                   (format_master_content_for_social (lib env) content topic) 120 w2))
       \<and> (\<exists>es. events (snd (run_workflow env topic w)) = events w2 @ es
             \<and> (\<forall>e \<in> set es.
                   e = Run (name (social_media_agent env))
                         (format_master_content_for_social (lib env) content topic) 120
                   \<or> is_sleep e))"
proof -
  have rw: "run_workflow env topic w =
           (Inr (Some [''topic'' \<mapsto> PyStr topic,
                       ''master_content'' \<mapsto> PyStr content,
                       ''evaluation'' \<mapsto> Evaluation evaluation,
                       ''social_media'' \<mapsto> PyNone]),
            snd (run_with_retry (social_media_agent env)
                   (format_master_content_for_social (lib env) content topic) 120 w2))"
    by (simp add: run_workflow_def bd social_media_failed[OF fail])
  from run_with_retry_events[of "social_media_agent env"
      "format_master_content_for_social (lib env) content topic" 120 w2]
  obtain es where "events (snd (run_with_retry (social_media_agent env)
                   (format_master_content_for_social (lib env) content topic) 120 w2)) =
          events w2 @ Run (name (social_media_agent env))
                       (format_master_content_for_social (lib env) content topic) 120 # es"
    "\<forall>e \<in> set es. e = Run (name (social_media_agent env))
                         (format_master_content_for_social (lib env) content topic) 120
                   \<or> is_sleep e"
    by blast
  then have "\<exists>es. events (snd (run_workflow env topic w)) = events w2 @ es
             \<and> (\<forall>e \<in> set es.
                   e = Run (name (social_media_agent env))
                         (format_master_content_for_social (lib env) content topic) 120
                   \<or> is_sleep e)"
    unfolding rw snd_conv
    by (intro exI[of _ "Run (name (social_media_agent env))
                       (format_master_content_for_social (lib env) content topic) 120 # es"]) simp
  with rw show ?thesis
    by blast
qed

theorem repurpose_failure_skips_persist_and_schedule_witness:
  "fst (run_workflow
          (example_env writer_one evaluator_approving failing (answering stored)
             (answering scheduled))
          ''AI tools'' world0) =
     Inr (Some [''topic'' \<mapsto> PyStr ''AI tools'',
                ''master_content'' \<mapsto> PyStr ''first-draft'',
                ''evaluation'' \<mapsto> Evaluation (scored 8.5 True),
                ''social_media'' \<mapsto> PyNone])
   \<and> runs (snd (run_workflow
          (example_env writer_one evaluator_approving failing (answering stored)
             (answering scheduled))
          ''AI tools'' world0)) = 6"
proof -
  let ?env = "example_env writer_one evaluator_approving failing (answering stored)
                (answering scheduled)"
  let ?w2 = "snd (best_draft ?env ''AI tools'' world0)"
  have rr: "run_with_retry (social_media_agent ?env)
              (format_master_content_for_social (lib ?env) ''first-draft'' ''AI tools'') 120 ?w2
            = (Inl TimeoutError,
               record_run (social_media_agent ?env)
                 (format_master_content_for_social (lib ?env) ''first-draft'' ''AI tools'') 120
                 (sleep 2 (record_run (social_media_agent ?env)
                   (format_master_content_for_social (lib ?env) ''first-draft'' ''AI tools'') 120
                   (sleep 1 (record_run (social_media_agent ?env)
                     (format_master_content_for_social (lib ?env) ''first-draft'' ''AI tools'')
                     120 ?w2)))))"
    by (rule retry_all_raise) (simp_all add: example_simps)
  have fail: "fst (run_with_retry (social_media_agent ?env)
                  (format_master_content_for_social (lib ?env) ''first-draft'' ''AI tools'')
                  120 ?w2) = Inr None
           \<or> (\<exists>e. fst (run_with_retry (social_media_agent ?env)
                  (format_master_content_for_social (lib ?env) ''first-draft'' ''AI tools'')
                  120 ?w2) = Inl e)"
    by (simp add: rr)
  note th = repurpose_failure_skips_persist_and_schedule[OF one_round_draft(1) fail,
      THEN conjunct1]
  show ?thesis
    unfolding th by (simp add: rr runs_record_run runs_sleep one_round_draft(2))
qed

text \<open>
  C8. When the run has a best draft and the repurpose stage succeeds, the schedule stage
  runs from the world that the persist stage leaves, whatever the persist stage gave: its
  first event is a call of the scheduler on the repurposed content. The dictionary holds
  the result of each of the two stages on its own, and a persist failure is the value
  \<^verbatim>\<open>None\<close> under the key \<^verbatim>\<open>storage\<close>.
\<close>

theorem persist_failure_keeps_schedule:
  fixes env topic content social_content w2
  defines "w3 \<equiv> snd (run_with_retry (social_media_agent env)
                        (format_master_content_for_social (lib env) content topic) 120 w2)"
  defines "persisted \<equiv> storage env topic content social_content w3"
  defines "planned \<equiv> scheduling env topic social_content (snd persisted)"
  assumes bd: "best_draft env topic w = (Inr (Some (content, evaluation)), w2)"
    and ok: "fst (run_with_retry (social_media_agent env)
                  (format_master_content_for_social (lib env) content topic) 120 w2)
             = Inr (Some social_content)"
  shows "run_workflow env topic w =
           (Inr (Some [''topic'' \<mapsto> PyStr topic,
                       ''master_content'' \<mapsto> PyStr content,
                       ''evaluation'' \<mapsto> Evaluation evaluation,
                       ''social_media'' \<mapsto> Social social_content,
                       ''storage'' \<mapsto> or_none Storage (fst persisted),
                       ''schedule'' \<mapsto> or_none Scheduling (fst planned)]),
            snd planned)
       \<and> (\<exists>es. events (snd planned) =
                  events (snd persisted)
                  @ Run (name (scheduler_agent env))
                      (format_content_for_scheduling topic social_content) 120 # es)
       \<and> (fst persisted = None \<longrightarrow> or_none Storage (fst persisted) = PyNone)"
proof -
  have "run_workflow env topic w =
           (Inr (Some [''topic'' \<mapsto> PyStr topic,
                       ''master_content'' \<mapsto> PyStr content,
                       ''evaluation'' \<mapsto> Evaluation evaluation,
                       ''social_media'' \<mapsto> Social social_content,
                       ''storage'' \<mapsto> or_none Storage (fst persisted),
                       ''schedule'' \<mapsto> or_none Scheduling (fst planned)]),
            snd planned)"
    unfolding planned_def persisted_def w3_def
    by (simp add: run_workflow_def bd social_media_done[OF ok] split: prod.splits)
  moreover have "\<exists>es. events (snd planned) =
                  events (snd persisted)
                  @ Run (name (scheduler_agent env))
                      (format_content_for_scheduling topic social_content) 120 # es"
    unfolding planned_def by (rule scheduling_events)
  ultimately show ?thesis
    by (simp add: or_none_def)
qed

theorem persist_failure_keeps_schedule_witness:
  "fst (run_workflow
          (example_env writer_one evaluator_approving (answering some_posts) failing
             (answering scheduled))
          ''AI tools'' world0) =
     Inr (Some [''topic'' \<mapsto> PyStr ''AI tools'',
                ''master_content'' \<mapsto> PyStr ''first-draft'',
                ''evaluation'' \<mapsto> Evaluation (scored 8.5 True),
                ''social_media'' \<mapsto> Social some_posts,
                ''storage'' \<mapsto> PyNone,
                ''schedule'' \<mapsto> Scheduling scheduled])"
proof -
  let ?env = "example_env writer_one evaluator_approving (answering some_posts) failing
                (answering scheduled)"
  let ?w2 = "snd (best_draft ?env ''AI tools'' world0)"
  let ?agent = "scripted ''Social Media Agent'' (answering some_posts)"
  let ?ask = "format_master_content_for_social example_lib ''first-draft'' ''AI tools''"
  have rr: "run_with_retry ?agent ?ask 120 ?w2 =
              (Inr (Some some_posts), record_run ?agent ?ask 120 ?w2)"
    by (rule retry_first_ok) (simp add: scripted_sel answering_def)
  have ok: "fst (run_with_retry (social_media_agent ?env)
                   (format_master_content_for_social (lib ?env) ''first-draft'' ''AI tools'')
                   120 ?w2) = Inr (Some some_posts)"
    by (simp add: example_env_sel rr)
  have st: "fst (storage ?env ''AI tools'' ''first-draft'' some_posts
                   (snd (run_with_retry (social_media_agent ?env)
                      (format_master_content_for_social (lib ?env) ''first-draft'' ''AI tools'')
                      120 ?w2))) = None"
    "runs (snd (storage ?env ''AI tools'' ''first-draft'' some_posts
                   (snd (run_with_retry (social_media_agent ?env)
                      (format_master_content_for_social (lib ?env) ''first-draft'' ''AI tools'')
                      120 ?w2)))) = 7"
    by (simp_all add: storage_def example_simps rr one_round_draft(2))
  have sc: "fst (scheduling ?env ''AI tools'' some_posts
                   (snd (storage ?env ''AI tools'' ''first-draft'' some_posts
                      (snd (run_with_retry (social_media_agent ?env)
                         (format_master_content_for_social (lib ?env) ''first-draft''
                            ''AI tools'')
                         120 ?w2)))))
            = Some scheduled"
    by (simp add: scheduling_def retry_first_ok scripted_sel example_env_sel st(2)
        answering_def scheduled_def)
  note th = persist_failure_keeps_schedule[OF one_round_draft(1) ok, THEN conjunct1]
  show ?thesis
    unfolding th by (simp add: st(1) sc or_none_def)
qed

text \<open>
  C6, as amended. Once the run has a best draft, \<open>run_workflow\<close> returns a dictionary with
  the topic, the draft and its evaluation, whatever the repurpose, persist and schedule
  stages do; it neither returns \<^verbatim>\<open>None\<close> nor raises. A failed research stage gives
  \<^verbatim>\<open>None\<close>, and so does a write and evaluate loop that ends with nothing retained.
\<close>

theorem later_failure_returns_record:
  "(best_draft env topic w = (Inr (Some (content, evaluation)), w2)
      \<longrightarrow> (\<exists>r w'. run_workflow env topic w = (Inr (Some r), w')
             \<and> r ''topic'' = Some (PyStr topic)
             \<and> r ''master_content'' = Some (PyStr content)
             \<and> r ''evaluation'' = Some (Evaluation evaluation)))
   \<and> (research env' topic' v = (None, v1) \<longrightarrow> run_workflow env' topic' v = (Inr None, v1))
   \<and> (research env' topic' v = (Some research_data, v1)
       \<and> format_research_for_master_content (lib env') research_data = Inr p
       \<and> loop_result (fst (draft_evaluate_loop env' research_data [1, 2, 3]
            \<lparr>best_content = None, best_evaluation = None, best_score = 0, prompt = p\<rparr> v1))
           = Inr None
      \<longrightarrow> fst (run_workflow env' topic' v) = Inr None)"
proof (intro conjI impI)
  assume bd: "best_draft env topic w = (Inr (Some (content, evaluation)), w2)"
  obtain so w3 where so: "social_media env topic content w2 = (so, w3)"
    by (cases "social_media env topic content w2")
  show "\<exists>r w'. run_workflow env topic w = (Inr (Some r), w')
             \<and> r ''topic'' = Some (PyStr topic)
             \<and> r ''master_content'' = Some (PyStr content)
             \<and> r ''evaluation'' = Some (Evaluation evaluation)"
  proof (cases so)
    case None
    with bd so show ?thesis
      by (simp add: run_workflow_def)
  next
    case (Some social_content)
    with bd so show ?thesis
      by (simp add: run_workflow_def split: prod.splits)
  qed
next
  assume "research env' topic' v = (None, v1)"
  then show "run_workflow env' topic' v = (Inr None, v1)"
    by (simp add: run_workflow_def best_draft_def)
next
  assume "research env' topic' v = (Some research_data, v1)
       \<and> format_research_for_master_content (lib env') research_data = Inr p
       \<and> loop_result (fst (draft_evaluate_loop env' research_data [1, 2, 3]
            \<lparr>best_content = None, best_evaluation = None, best_score = 0, prompt = p\<rparr> v1))
           = Inr None"
  then have h: "research env' topic' v = (Some research_data, v1)"
    "format_research_for_master_content (lib env') research_data = Inr p"
    "loop_result (fst (draft_evaluate_loop env' research_data [1, 2, 3]
            \<lparr>best_content = None, best_evaluation = None, best_score = 0, prompt = p\<rparr> v1))
           = Inr None"
    by blast+
  obtain s v2 where l: "draft_evaluate_loop env' research_data [1, 2, 3]
            \<lparr>best_content = None, best_evaluation = None, best_score = 0, prompt = p\<rparr> v1
          = (s, v2)"
    by (cases "draft_evaluate_loop env' research_data [1, 2, 3]
            \<lparr>best_content = None, best_evaluation = None, best_score = 0, prompt = p\<rparr> v1")
  from h(3) have "loop_result s = Inr None"
    unfolding l by simp
  with h(1,2) show "fst (run_workflow env' topic' v) = Inr None"
    by (simp add: run_workflow_def best_draft_def l[unfolded One_nat_def]
        del: draft_evaluate_loop.simps)
qed

theorem later_failure_returns_record_witness:
  "(\<exists>r w'. run_workflow
             (example_env writer_one evaluator_approving failing failing failing)
             ''AI tools'' world0 = (Inr (Some r), w')
          \<and> r ''topic'' = Some (PyStr ''AI tools'')
          \<and> r ''master_content'' = Some (PyStr ''first-draft'')
          \<and> r ''evaluation'' = Some (Evaluation (scored 8.5 True)))
   \<and> fst (run_workflow
           (example_env failing failing failing failing failing
              \<lparr>research_agent := scripted ''Deep Research Agent'' failing\<rparr>)
           ''AI tools'' world0) = Inr None
   \<and> fst (run_workflow (example_env failing failing failing failing failing)
           ''AI tools'' world0) = Inr None"
proof -
  let ?env = "example_env writer_one evaluator_approving failing failing failing"
  let ?deaf = "example_env failing failing failing failing failing
                 \<lparr>research_agent := scripted ''Deep Research Agent'' failing\<rparr>"
  let ?quiet = "example_env failing failing failing failing failing"
  have r1: "research ?deaf ''AI tools'' world0 =
              (None, snd (research ?deaf ''AI tools'' world0))"
    by (simp add: research_def example_env_def scripted_def failing_def retry_all_raise
        world0_sel)
  have r2: "research ?quiet ''AI tools'' world0 = (Some research_dict, world1)
       \<and> format_research_for_master_content (lib ?quiet) research_dict = Inr example_prompt
       \<and> loop_result (fst (draft_evaluate_loop ?quiet research_dict [1, 2, 3]
            \<lparr>best_content = None, best_evaluation = None, best_score = 0,
             prompt = example_prompt\<rparr> world1))
           = Inr None"
    by (simp add: example_research round_simps world1_def record_run_def)
  note a = later_failure_returns_record[where env = ?env and topic = "''AI tools''"
      and w = world0, THEN conjunct1, THEN mp, OF one_round_draft(1)]
  note b = later_failure_returns_record[where env' = ?deaf and topic' = "''AI tools''"
      and v = world0, THEN conjunct2, THEN conjunct1, THEN mp, OF r1]
  note c = later_failure_returns_record[where env' = ?quiet and topic' = "''AI tools''"
      and v = world0, THEN conjunct2, THEN conjunct2, THEN mp, OF r2]
  from a b c show ?thesis
    by simp
qed

text \<open>
  C6 as stated counts the exhaustion of the loop among the failures that still give a run
  record. With a research that succeeds and a writer that times out at every attempt of
  every round, no round is evaluated and \<open>run_workflow\<close> returns \<^verbatim>\<open>None\<close> (line 100).
\<close>

theorem draft_loop_exhausted_counterexample:
  "fst (research (example_env failing failing failing failing failing) ''AI tools'' world0)
     = Some research_dict
   \<and> format_research_for_master_content
       (lib (example_env failing failing failing failing failing)) research_dict
     = Inr example_prompt
   \<and> evaluated_attempts (example_env failing failing failing failing failing)
        research_dict [1, 2, 3]
        \<lparr>best_content = None, best_evaluation = None, best_score = 0, prompt = example_prompt\<rparr>
        world1 = []
   \<and> fst (run_workflow (example_env failing failing failing failing failing)
           ''AI tools'' world0) = Inr None"
  by (simp add: run_workflow_def best_draft_def example_research round_simps world1_def)

end
